theory Spec2Isabelle
  imports Main
begin

section \<open>Values, objects and the store\<close>

text \<open>
  The component \<open>GeojsonComponent\<close> (geojson.component.ts) shares mutable objects with
  its collaborators: the Leaflet map held by the map service, the feature groups it
  creates, and the layers the service's factory returns. Objects live in a store and are
  named by references, so that aliasing (\<open>this.map\<close> and \<open>this.mapservice.map\<close>; the
  stale group that still lists an old layer) is what it is in the program.
\<close>

type_synonym ref = nat

text \<open>A GeoJSON input value that is not \<open>undefined\<close>: \<open>null\<close>, or some data.\<close>

datatype geojson = GeoNull | Geo nat

type_synonym callback = nat

type_synonym latlng = "int \<times> int"

text \<open>A valid bounding box: south-west corner, north-east corner.\<close>

type_synonym bounds = "latlng \<times> latlng"

datatype obj =
    MapObj "ref list" bounds
  | GroupObj "ref list" "ref option"
  | LayerObj "bounds list"

text \<open>
  \<open>MapObj reg vp\<close>: a map, the layers registered on it (in the order they were added) and
  the box its viewport was last fit to. \<open>GroupObj ch m\<close>: a feature group, its child
  layers and the map it is on, if any. \<open>LayerObj fs\<close>: a layer returned by the factory,
  with the boxes of the features it renders.
\<close>

datatype exn = TypeError | FactoryError | BoundsError

text \<open>The calls the component issues on its collaborators, in program order.\<close>

datatype event =
    CreateGeojson geojson "bool option" "callback option"
  | Next ref
  | NewFeatureGroup ref
  | AddLayer ref ref
  | GroupAddLayer ref ref
  | RemoveLayer ref ref

text \<open>The subject \<open>geojsonCharged\<close>: its observers, and what it has pushed to whom.\<close>

record subject =
  observers :: "nat list"
  isStopped :: bool
  emitted :: "ref list"
  inbox :: "(nat \<times> ref) list"

text \<open>
  The fields of the component that its methods read or write (\<open>this_map\<close> is \<open>this.map\<close>;
  \<open>asCluste\<close> is the declared clustering input), the two fields of the map service
  (\<open>svc_map\<close>, \<open>svc_layerGroup\<close>), the store, the console, and two logs: the calls made
  and every value the registry of a map has taken.
\<close>

record state =
  this_map :: "ref option"
  currentGeojson :: "ref option"
  onEachFeature :: "callback option"
  zoomOnLayer :: bool
  asCluste :: bool
  geojsonCharged :: subject
  svc_map :: "ref option"
  svc_layerGroup :: "ref option"
  heap :: "ref \<Rightarrow> obj option"
  next_ref :: ref
  console :: "string list"
  calls :: "event list"
  frames :: "(ref \<times> ref list) list"

text \<open>A method returns normally, or throws and leaves the state as it is at the throw.\<close>

datatype outcome = Done state | Thrown exn state

fun and_then :: "outcome \<Rightarrow> (state \<Rightarrow> outcome) \<Rightarrow> outcome" where
  "and_then (Done s) k = k s"
| "and_then (Thrown e s) k = Thrown e s"

fun result_state :: "outcome \<Rightarrow> state" where
  "result_state (Done s) = s"
| "result_state (Thrown e s) = s"

fun thrown :: "outcome \<Rightarrow> exn option" where
  "thrown (Done s) = None"
| "thrown (Thrown e s) = Some e"

section \<open>The collaborators\<close>

subsection \<open>The change notification channel\<close>

text \<open>
  Modelled from the spec: the Change Notification Channel (an rxjs \<open>Subject\<close>, whose code
  is not among the sources). \<open>emit\<close> pushes the value to all current subscribers in
  subscription order, and is a no-op once the channel is closed.
\<close>

definition subject_next :: "ref \<Rightarrow> subject \<Rightarrow> subject" where
  "subject_next v sub =
     (if isStopped sub then sub
      else sub\<lparr>emitted := emitted sub @ [v],
               inbox := inbox sub @ map (\<lambda>ob. (ob, v)) (observers sub)\<rparr>)"

subsection \<open>The map surface and its layer groups\<close>

text \<open>
  Modelled from the spec: the Map Surface Handle contract (\<open>addLayer(layer)\<close>,
  \<open>removeLayer(layer)\<close>, \<open>fitBounds(extent)\<close> raising on an empty extent) and the
  LayerGroup (the Leaflet library, whose code is not among the sources). A map keeps a
  registry of the layers on it. Adding a group to a map registers the group and its
  children; adding a layer to a group that is on a map registers the layer on that map;
  removing a layer from a map unregisters it (and the children of a group), and does
  nothing when the layer is not registered.
\<close>

definition register :: "ref \<Rightarrow> ref \<Rightarrow> state \<Rightarrow> state" where
  "register m x s =
     (case heap s m of
        Some (MapObj reg vp) \<Rightarrow>
          if x \<in> set reg then s
          else s\<lparr>heap := (heap s)(m \<mapsto> MapObj (reg @ [x]) vp),
                 frames := frames s @ [(m, reg @ [x])]\<rparr>
      | _ \<Rightarrow> s)"

definition unregister :: "ref \<Rightarrow> ref \<Rightarrow> state \<Rightarrow> state" where
  "unregister m x s =
     (case heap s m of
        Some (MapObj reg vp) \<Rightarrow>
          if x \<in> set reg
          then s\<lparr>heap := (heap s)(m \<mapsto> MapObj (removeAll x reg) vp),
                 frames := frames s @ [(m, removeAll x reg)]\<rparr>
          else s
      | _ \<Rightarrow> s)"

definition children_of :: "state \<Rightarrow> ref \<Rightarrow> ref list" where
  "children_of s x = (case heap s x of Some (GroupObj ch gm) \<Rightarrow> ch | _ \<Rightarrow> [])"

definition set_group_map :: "ref \<Rightarrow> ref option \<Rightarrow> state \<Rightarrow> state" where
  "set_group_map x mo s =
     (case heap s x of
        Some (GroupObj ch gm) \<Rightarrow> s\<lparr>heap := (heap s)(x \<mapsto> GroupObj ch mo)\<rparr>
      | _ \<Rightarrow> s)"

definition map_addLayer :: "ref \<Rightarrow> ref \<Rightarrow> state \<Rightarrow> outcome" where
  "map_addLayer m x s =
     (case heap s m of
        Some (MapObj reg vp) \<Rightarrow>
          if x \<in> set reg then Done s
          else Done (foldl (\<lambda>t c. register m c t)
                       (set_group_map x (Some m) (register m x s)) (children_of s x))
      | _ \<Rightarrow> Thrown TypeError s)"

definition map_removeLayer :: "ref \<Rightarrow> ref \<Rightarrow> state \<Rightarrow> outcome" where
  "map_removeLayer m x s =
     (case heap s m of
        Some (MapObj reg vp) \<Rightarrow>
          if x \<in> set reg
          then Done (unregister m x
                       (foldl (\<lambda>t c. unregister m c t)
                          (set_group_map x None s) (children_of s x)))
          else Done s
      | _ \<Rightarrow> Thrown TypeError s)"

definition group_addLayer :: "ref \<Rightarrow> ref \<Rightarrow> state \<Rightarrow> outcome" where
  "group_addLayer g x s =
     (case heap s g of
        Some (GroupObj ch gm) \<Rightarrow>
          (let s1 = s\<lparr>heap := (heap s)
                        (g \<mapsto> GroupObj (if x \<in> set ch then ch else ch @ [x]) gm)\<rparr>
           in case gm of
                None \<Rightarrow> Done s1
              | Some m \<Rightarrow> map_addLayer m x s1)
      | _ \<Rightarrow> Thrown TypeError s)"

text \<open>
  Modelled from the spec: the bounding extent of a group's contents and
  \<open>fitBounds(extent)\<close>, which raises on an empty extent (the Leaflet library, whose code
  is not among the sources). \<open>None\<close> is the empty (invalid) extent, which a box extends
  to itself; the extent of a group is the union of the extents of its children; fitting
  a map to a valid extent sets its viewport to it.
\<close>

fun extend :: "bounds option \<Rightarrow> bounds \<Rightarrow> bounds option" where
  "extend None b = Some b"
| "extend (Some ((s1, w1), (n1, e1))) ((s2, w2), (n2, e2)) =
     Some ((min s1 s2, min w1 w2), (max n1 n2, max e1 e2))"

definition bounds_of :: "bounds list \<Rightarrow> bounds option" where
  "bounds_of fs = foldl extend None fs"

definition extent_of :: "state \<Rightarrow> ref \<Rightarrow> bounds option" where
  "extent_of s x = (case heap s x of Some (LayerObj fs) \<Rightarrow> bounds_of fs | _ \<Rightarrow> None)"

definition join :: "bounds option \<Rightarrow> bounds option \<Rightarrow> bounds option" where
  "join a b = (case b of None \<Rightarrow> a | Some bb \<Rightarrow> extend a bb)"

definition group_getBounds :: "state \<Rightarrow> ref \<Rightarrow> exn + bounds option" where
  "group_getBounds s g =
     (case heap s g of
        Some (GroupObj ch gm) \<Rightarrow> Inr (foldl join None (map (extent_of s) ch))
      | _ \<Rightarrow> Inl TypeError)"

definition map_fitBounds :: "ref \<Rightarrow> bounds option \<Rightarrow> state \<Rightarrow> outcome" where
  "map_fitBounds m b s =
     (case heap s m of
        Some (MapObj reg vp) \<Rightarrow>
          (case b of
             None \<Rightarrow> Thrown BoundsError s
           | Some bb \<Rightarrow> Done (s\<lparr>heap := (heap s)(m \<mapsto> MapObj reg bb)\<rparr>))
      | _ \<Rightarrow> Thrown TypeError s)"

subsection \<open>The layer factory\<close>

text \<open>
  \<open>MapService.createGeojson\<close> is a parameter: from the data, the clustering argument
  (\<open>None\<close> when the argument is \<open>undefined\<close>) and the per-feature callback, it returns the
  boxes of the features of the new layer, or throws (\<open>None\<close>).
\<close>

type_synonym factory = "geojson \<Rightarrow> bool option \<Rightarrow> callback option \<Rightarrow> bounds list option"

section \<open>The component\<close>

text \<open>\<open>changes.geojson\<close>: absent, or the previous and the current value of the input.\<close>

record simple_change =
  previousValue :: "geojson option"
  currentValue :: "geojson option"

record changes =
  geojson :: "simple_change option"

text \<open>\<open>ngOnInit() { this.map = this.mapservice.map; }\<close>\<close>

definition ngOnInit :: "state \<Rightarrow> outcome" where
  "ngOnInit s = Done (s\<lparr>this_map := svc_map s\<rparr>)"

text \<open>
  \<open>loadGeojson(geojson)\<close>. The second argument of the factory is \<open>this.asCluster\<close>: the
  class declares and assigns no property of that name (the input is \<open>asCluste\<close>), so the
  read yields \<open>undefined\<close>. The new layer and the new group are allocated at the next
  free references.
\<close>

definition loadGeojson :: "factory \<Rightarrow> geojson \<Rightarrow> state \<Rightarrow> outcome" where
  "loadGeojson createGeojson gj s =
     (let s0 = s\<lparr>calls := calls s @ [CreateGeojson gj None (onEachFeature s)]\<rparr>
      in case createGeojson gj None (onEachFeature s) of
           None \<Rightarrow> Thrown FactoryError s0
         | Some fs \<Rightarrow>
             (let l = next_ref s0;
                  s1 = s0\<lparr>heap := (heap s0)(l \<mapsto> LayerObj fs), next_ref := Suc l,
                          currentGeojson := Some l\<rparr>;
                  s2 = s1\<lparr>geojsonCharged := subject_next l (geojsonCharged s1),
                          calls := calls s1 @ [Next l]\<rparr>;
                  g = next_ref s2;
                  s3 = s2\<lparr>heap := (heap s2)(g \<mapsto> GroupObj [] None), next_ref := Suc g,
                          svc_layerGroup := Some g,
                          calls := calls s2 @ [NewFeatureGroup g]\<rparr>
              in case svc_map s3 of
                   None \<Rightarrow> Thrown TypeError s3
                 | Some m \<Rightarrow>
                     and_then (map_addLayer m g (s3\<lparr>calls := calls s3 @ [AddLayer m g]\<rparr>))
                       (\<lambda>s4. group_addLayer g l
                               (s4\<lparr>calls := calls s4 @ [GroupAddLayer g l]\<rparr>))))"

text \<open>
  The \<open>try { this.map.fitBounds(this.mapservice.layerGroup.getBounds()); }\<close> block and
  its \<open>catch\<close>, which logs and swallows whatever was thrown.
\<close>

definition try_fit :: "state \<Rightarrow> outcome" where
  "try_fit s =
     (case this_map s of
        None \<Rightarrow> Thrown TypeError s
      | Some m \<Rightarrow>
          (case svc_layerGroup s of
             None \<Rightarrow> Thrown TypeError s
           | Some g \<Rightarrow>
               (case group_getBounds s g of
                  Inl e \<Rightarrow> Thrown e s
                | Inr b \<Rightarrow> map_fitBounds m b s)))"

definition reframe :: "state \<Rightarrow> outcome" where
  "reframe s =
     (case try_fit s of
        Done s' \<Rightarrow> Done s'
      | Thrown e s' \<Rightarrow> Done (s'\<lparr>console := console s' @ [''no layer in featuregroup'']\<rparr>))"

text \<open>\<open>ngOnChanges(changes)\<close>.\<close>

definition remove_current :: "state \<Rightarrow> outcome" where
  "remove_current s =
     (case currentGeojson s of
        None \<Rightarrow> Done s
      | Some old \<Rightarrow>
          (case svc_map s of
             None \<Rightarrow> Thrown TypeError s
           | Some m \<Rightarrow> map_removeLayer m old (s\<lparr>calls := calls s @ [RemoveLayer m old]\<rparr>)))"

definition ngOnChanges :: "factory \<Rightarrow> changes \<Rightarrow> state \<Rightarrow> outcome" where
  "ngOnChanges createGeojson chg s =
     (case geojson chg of
        None \<Rightarrow> Done s
      | Some c \<Rightarrow>
          (case currentValue c of
             None \<Rightarrow> Done s
           | Some gj \<Rightarrow>
               and_then (remove_current s)
                 (\<lambda>s1. and_then (loadGeojson createGeojson gj s1)
                   (\<lambda>s2. if previousValue c \<noteq> None \<and> zoomOnLayer s2
                          then reframe s2 else Done s2))))"

text \<open>
  The lifecycle hooks the framework calls. The class implements \<open>OnInit\<close> and
  \<open>OnChanges\<close> only: it has no \<open>ngOnDestroy\<close>, so destroying the component runs no code
  of it.
\<close>

datatype hook = OnChanges changes | OnInit | OnDestroy

definition dispatch :: "factory \<Rightarrow> hook \<Rightarrow> state \<Rightarrow> outcome" where
  "dispatch createGeojson h s =
     (case h of
        OnChanges chg \<Rightarrow> ngOnChanges createGeojson chg s
      | OnInit \<Rightarrow> ngOnInit s
      | OnDestroy \<Rightarrow> Done s)"

text \<open>A sequence of hooks; it is cut at the first exception that escapes a hook.\<close>

fun run :: "factory \<Rightarrow> hook list \<Rightarrow> state \<Rightarrow> outcome" where
  "run createGeojson [] s = Done s"
| "run createGeojson (h # hs) s = and_then (dispatch createGeojson h s) (run createGeojson hs)"

text \<open>
  The component as its field initialisers leave it (\<open>zoomOnLayer = true\<close>,
  \<open>asCluste = false\<close>, a new subject), in a world where the service holds the map \<open>m\<close>.
\<close>

definition constructed :: "ref option \<Rightarrow> (ref \<Rightarrow> obj option) \<Rightarrow> ref \<Rightarrow> state" where
  "constructed m h n =
     \<lparr>this_map = None, currentGeojson = None, onEachFeature = None, zoomOnLayer = True,
      asCluste = False,
      geojsonCharged = \<lparr>observers = [], isStopped = False, emitted = [], inbox = []\<rparr>,
      svc_map = m, svc_layerGroup = None, heap = h, next_ref = n, console = [],
      calls = [], frames = []\<rparr>"

text \<open>What is on a map: the factory's layers, and the groups.\<close>

definition registry :: "state \<Rightarrow> ref \<Rightarrow> ref list" where
  "registry s m = (case heap s m of Some (MapObj reg vp) \<Rightarrow> reg | _ \<Rightarrow> [])"

definition viewport :: "state \<Rightarrow> ref \<Rightarrow> bounds option" where
  "viewport s m = (case heap s m of Some (MapObj reg vp) \<Rightarrow> Some vp | _ \<Rightarrow> None)"

fun is_layer :: "obj option \<Rightarrow> bool" where
  "is_layer (Some (LayerObj fs)) = True"
| "is_layer _ = False"

fun is_group :: "obj option \<Rightarrow> bool" where
  "is_group (Some (GroupObj ch gm)) = True"
| "is_group _ = False"

definition layers_on :: "state \<Rightarrow> ref \<Rightarrow> ref list" where
  "layers_on s m = filter (\<lambda>r. is_layer (heap s r)) (registry s m)"

definition groups_on :: "state \<Rightarrow> ref \<Rightarrow> ref list" where
  "groups_on s m = filter (\<lambda>r. is_group (heap s r)) (registry s m)"

section \<open>Notions used in the statements\<close>

text \<open>The payload a change event carries for the \<open>geojson\<close> input, and its previous value.\<close>

definition payload_of :: "changes \<Rightarrow> geojson option" where
  "payload_of chg = (case geojson chg of None \<Rightarrow> None | Some c \<Rightarrow> currentValue c)"

definition previous_of :: "changes \<Rightarrow> geojson option" where
  "previous_of chg = (case geojson chg of None \<Rightarrow> None | Some c \<Rightarrow> previousValue c)"

definition hook_payload :: "hook \<Rightarrow> geojson option" where
  "hook_payload h = (case h of OnChanges chg \<Rightarrow> payload_of chg | _ \<Rightarrow> None)"

text \<open>
  The service holds the map \<open>m\<close>, and the store is well formed around it: the map and
  the layers registered on it were allocated before the next free reference.
\<close>

definition bound :: "state \<Rightarrow> ref \<Rightarrow> bool" where
  "bound s m \<longleftrightarrow>
     svc_map s = Some m \<and> viewport s m \<noteq> None \<and> m < next_ref s \<and>
     (\<forall>r\<in>set (registry s m). r < next_ref s)"

text \<open>The current layer, if there is one, is a layer of the factory.\<close>

definition current_ok :: "state \<Rightarrow> bool" where
  "current_ok s =
     (case currentGeojson s of None \<Rightarrow> True | Some old \<Rightarrow> is_layer (heap s old))"

text \<open>The factory's layers on the map \<open>m\<close> are: the current layer, if there is one.\<close>

definition tracked :: "state \<Rightarrow> ref \<Rightarrow> bool" where
  "tracked s m \<longleftrightarrow>
     layers_on s m = (case currentGeojson s of None \<Rightarrow> [] | Some l \<Rightarrow> [l])"

text \<open>
  The overlay of a state on the map \<open>m\<close>: the service's group is on the map and holds
  the current layer and nothing else, and that layer is the only layer of the factory on
  the map.
\<close>

definition one_overlay :: "state \<Rightarrow> ref \<Rightarrow> bool" where
  "one_overlay s m =
     (case currentGeojson s of
        None \<Rightarrow> False
      | Some l \<Rightarrow>
          layers_on s m = [l] \<and>
          (case svc_layerGroup s of
             None \<Rightarrow> False
           | Some g \<Rightarrow> g \<in> set (registry s m) \<and> heap s g = Some (GroupObj [l] (Some m))))"

text \<open>The current layer is what the factory returns for the payload of the hook.\<close>

definition built_from :: "factory \<Rightarrow> callback option \<Rightarrow> hook \<Rightarrow> state \<Rightarrow> bool" where
  "built_from createGeojson cb h s =
     (case hook_payload h of
        None \<Rightarrow> False
      | Some gj \<Rightarrow>
          (case createGeojson gj None cb of
             None \<Rightarrow> False
           | Some fs \<Rightarrow>
               (case currentGeojson s of
                  None \<Rightarrow> False
                | Some l \<Rightarrow> heap s l = Some (LayerObj fs))))"

text \<open>The hook is a payload update for which the factory returns a layer.\<close>

definition builds :: "factory \<Rightarrow> callback option \<Rightarrow> hook \<Rightarrow> bool" where
  "builds createGeojson cb h =
     (case hook_payload h of
        None \<Rightarrow> False
      | Some gj \<Rightarrow> createGeojson gj None cb \<noteq> None)"

text \<open>
  The state a refresh reaches before the reframe step, from a state where the service
  holds the map \<open>m\<close>: the previous layer unregistered, the new layer \<open>l\<close> and the new
  group \<open>g\<close> allocated and registered.
\<close>

definition refreshed :: "geojson \<Rightarrow> bounds list \<Rightarrow> ref \<Rightarrow> state \<Rightarrow> state" where
  "refreshed gj fs m s =
     (let l = next_ref s; g = Suc l;
          reg = registry s m;
          reg1 = (case currentGeojson s of None \<Rightarrow> reg | Some old \<Rightarrow> removeAll old reg)
      in s\<lparr>currentGeojson := Some l,
            geojsonCharged := subject_next l (geojsonCharged s),
            svc_layerGroup := Some g,
            heap := (heap s)(l \<mapsto> LayerObj fs, g \<mapsto> GroupObj [l] (Some m),
                             m \<mapsto> MapObj (reg1 @ [g, l]) (the (viewport s m))),
            next_ref := Suc g,
            calls := calls s
              @ (case currentGeojson s of None \<Rightarrow> [] | Some old \<Rightarrow> [RemoveLayer m old])
              @ [CreateGeojson gj None (onEachFeature s), Next l,
                 NewFeatureGroup g, AddLayer m g, GroupAddLayer g l],
            frames := frames s
              @ (case currentGeojson s of
                   None \<Rightarrow> []
                 | Some old \<Rightarrow> if old \<in> set reg then [(m, reg1)] else [])
              @ [(m, reg1 @ [g]), (m, reg1 @ [g, l])]\<rparr>)"

text \<open>
  Two states differ only in what the map and its groups keep: the registries, the
  groups' children, and the log of registries. Layers of the factory are left as they are.
\<close>

definition leaflet_only :: "state \<Rightarrow> state \<Rightarrow> bool" where
  "leaflet_only s s' \<longleftrightarrow>
     s' = s\<lparr>heap := heap s', frames := frames s'\<rparr> \<and>
     (\<forall>r fs. heap s r = Some (LayerObj fs) \<longrightarrow> heap s' r = Some (LayerObj fs))"

text \<open>Two states differ only in the viewports of maps and in the console.\<close>

definition view_only :: "state \<Rightarrow> state \<Rightarrow> bool" where
  "view_only s s' \<longleftrightarrow>
     s' = s\<lparr>heap := heap s', console := console s'\<rparr> \<and>
     (\<forall>r. heap s' r = heap s r \<or>
          (\<exists>reg vp vp'. heap s r = Some (MapObj reg vp) \<and> heap s' r = Some (MapObj reg vp')))"

subsection \<open>A sample world\<close>

text \<open>
  A factory that returns no feature for \<open>null\<close> and for \<open>Geo 0\<close>, throws on \<open>Geo 99\<close>, and
  returns one feature otherwise; a world with one map, at reference 0, bound in the
  service; and change events for the \<open>geojson\<close> input.
\<close>

definition sample_factory :: factory where
  "sample_factory gj cl cb =
     (case gj of
        GeoNull \<Rightarrow> Some []
      | Geo n \<Rightarrow>
          if n = 0 then Some []
          else if n = 99 then None
          else Some [((int n, int n), (int n + 1, int n + 1))])"

definition sample_world :: state where
  "sample_world = constructed (Some 0) (Map.empty(0 \<mapsto> MapObj [] ((0, 0), (10, 10)))) 1"

definition change :: "geojson option \<Rightarrow> geojson option \<Rightarrow> changes" where
  "change p c = \<lparr>geojson = Some \<lparr>previousValue = p, currentValue = c\<rparr>\<rparr>"

definition other_change :: changes where
  "other_change = \<lparr>geojson = None\<rparr>"

text \<open>A world where the service holds no map yet, and the component is not initialised.\<close>

definition unbound_world :: state where
  "unbound_world = constructed None Map.empty 0"

text \<open>The sample world with one subscriber, 7, on the channel.\<close>

definition watched_world :: state where
  "watched_world =
     sample_world\<lparr>geojsonCharged :=
       \<lparr>observers = [7], isStopped = False, emitted = [], inbox = []\<rparr>\<rparr>"

text \<open>The sample world after a first payload and the initialisation of the component.\<close>

definition loaded_world :: state where
  "loaded_world =
     result_state
       (run sample_factory [OnChanges (change None (Some (Geo 1))), OnInit] sample_world)"

section \<open>What the map operations leave alone\<close>

lemma leaflet_only_refl: "leaflet_only s s"
  by (simp add: leaflet_only_def)

lemma leaflet_only_trans: "leaflet_only s t \<Longrightarrow> leaflet_only t u \<Longrightarrow> leaflet_only s u"
proof -
  assume a: "leaflet_only s t" and b: "leaflet_only t u"
  from a have t: "t = s\<lparr>heap := heap t, frames := frames t\<rparr>" by (simp add: leaflet_only_def)
  from b have u: "u = t\<lparr>heap := heap u, frames := frames u\<rparr>" by (simp add: leaflet_only_def)
  have "u = s\<lparr>heap := heap u, frames := frames u\<rparr>"
    by (subst u, subst t) simp
  moreover have "\<forall>r fs. heap s r = Some (LayerObj fs) \<longrightarrow> heap u r = Some (LayerObj fs)"
    using a b by (simp add: leaflet_only_def)
  ultimately show ?thesis by (simp add: leaflet_only_def)
qed

lemma leaflet_only_register: "leaflet_only s (register m x s)"
  by (auto simp: leaflet_only_def register_def split: option.splits obj.splits)

lemma leaflet_only_unregister: "leaflet_only s (unregister m x s)"
  by (auto simp: leaflet_only_def unregister_def split: option.splits obj.splits)

lemma leaflet_only_set_group_map: "leaflet_only s (set_group_map x mo s)"
  by (auto simp: leaflet_only_def set_group_map_def split: option.splits obj.splits)

lemma leaflet_only_foldl:
  assumes "\<And>c t. leaflet_only t (step t c)"
  shows "leaflet_only s (foldl step s cs)"
proof (induction cs arbitrary: s)
  case Nil
  show ?case by (simp add: leaflet_only_refl)
next
  case (Cons c cs)
  have "leaflet_only s (step s c)" by (rule assms)
  moreover have "leaflet_only (step s c) (foldl step (step s c) cs)" by (rule Cons.IH)
  ultimately show ?case by (simp add: leaflet_only_trans)
qed

lemma leaflet_only_map_addLayer: "leaflet_only s (result_state (map_addLayer m x s))"
proof -
  have 1: "leaflet_only s (set_group_map x (Some m) (register m x s))"
    by (rule leaflet_only_trans [OF leaflet_only_register leaflet_only_set_group_map])
  have 2: "leaflet_only t (foldl (\<lambda>t c. register m c t) t cs)" for t cs
    by (rule leaflet_only_foldl) (rule leaflet_only_register)
  show ?thesis
    using leaflet_only_trans [OF 1 2]
    by (simp add: map_addLayer_def leaflet_only_refl split: option.splits obj.splits)
qed

lemma leaflet_only_map_removeLayer: "leaflet_only s (result_state (map_removeLayer m x s))"
proof -
  have 2: "leaflet_only t (foldl (\<lambda>t c. unregister m c t) t cs)" for t cs
    by (rule leaflet_only_foldl) (rule leaflet_only_unregister)
  have 3: "leaflet_only s (unregister m x (foldl (\<lambda>t c. unregister m c t) (set_group_map x None s) cs))" for cs
    by (rule leaflet_only_trans [OF leaflet_only_trans [OF leaflet_only_set_group_map 2] leaflet_only_unregister])
  show ?thesis
    using 3
    by (simp add: map_removeLayer_def leaflet_only_refl split: option.splits obj.splits)
qed

lemma leaflet_only_group_addLayer: "leaflet_only s (result_state (group_addLayer g x s))"
proof (cases "heap s g")
  case None
  then show ?thesis by (simp add: group_addLayer_def leaflet_only_refl)
next
  case (Some ob)
  show ?thesis
  proof (cases ob)
    case (GroupObj ch gm)
    define s1 where "s1 = s\<lparr>heap := (heap s)(g \<mapsto> GroupObj (if x \<in> set ch then ch else ch @ [x]) gm)\<rparr>"
    have a: "leaflet_only s s1"
      using Some GroupObj by (auto simp: leaflet_only_def s1_def)
    show ?thesis
    proof (cases gm)
      case None
      with a Some GroupObj show ?thesis by (simp add: group_addLayer_def s1_def)
    next
      case (Some m)
      have "leaflet_only s (result_state (map_addLayer m x s1))"
        by (rule leaflet_only_trans [OF a leaflet_only_map_addLayer])
      with Some \<open>heap s g = Some ob\<close> GroupObj show ?thesis
        by (simp add: group_addLayer_def s1_def)
    qed
  qed (use Some in \<open>simp_all add: group_addLayer_def leaflet_only_refl\<close>)
qed


section \<open>The state after a refresh\<close>

lemma bound_obtain:
  assumes "bound s m"
  obtains reg vp where "svc_map s = Some m" "heap s m = Some (MapObj reg vp)"
    "m < next_ref s" "\<forall>r\<in>set reg. r < next_ref s" "registry s m = reg" "viewport s m = Some vp"
  using assms
  by (auto simp: bound_def viewport_def registry_def split: option.splits obj.splits)

lemma current_ok_obtain:
  assumes "current_ok s" "currentGeojson s = Some old"
  obtains fo where "heap s old = Some (LayerObj fo)"
  using assms
  by (cases "heap s old" rule: is_layer.cases) (auto simp: current_ok_def)

lemma load_after_remove:
  assumes b: "bound s m" and c: "current_ok s" and f: "f gj None (onEachFeature s) = Some fs"
  shows "and_then (remove_current s) (loadGeojson f gj) = Done (refreshed gj fs m s)"
proof -
  from b obtain reg vp where h: "svc_map s = Some m" "heap s m = Some (MapObj reg vp)"
    "m < next_ref s" "\<forall>r\<in>set reg. r < next_ref s" "registry s m = reg" "viewport s m = Some vp"
    by (rule bound_obtain)
  have a: "m \<noteq> next_ref s" "m \<noteq> Suc (next_ref s)" "next_ref s \<noteq> m" "Suc (next_ref s) \<noteq> m"
    "next_ref s \<notin> set reg" "Suc (next_ref s) \<notin> set reg"
    using h by auto
  show ?thesis
  proof (cases "currentGeojson s")
    case None
    then show ?thesis
      using h a f
      by (simp add: remove_current_def loadGeojson_def Let_def map_addLayer_def register_def
        set_group_map_def children_of_def group_addLayer_def refreshed_def fun_upd_twist)
  next
    case (Some old)
    with c obtain fo where o: "heap s old = Some (LayerObj fo)"
      by (rule current_ok_obtain)
    show ?thesis
      using h a f Some o
      by (simp add: remove_current_def map_removeLayer_def unregister_def
        loadGeojson_def Let_def map_addLayer_def register_def
        set_group_map_def children_of_def group_addLayer_def refreshed_def fun_upd_twist)
  qed
qed

lemma and_then_assoc: "and_then (and_then r k) k' = and_then r (\<lambda>s. and_then (k s) k')"
  by (cases r) simp_all

lemma zoomOnLayer_refreshed: "zoomOnLayer (refreshed gj fs m s) = zoomOnLayer s"
  by (simp add: refreshed_def Let_def)

lemma ngOnChanges_refresh:
  assumes p: "payload_of chg = Some gj" and b: "bound s m" and c: "current_ok s"
    and f: "f gj None (onEachFeature s) = Some fs"
  shows "ngOnChanges f chg s =
           (if previous_of chg \<noteq> None \<and> zoomOnLayer s
            then reframe (refreshed gj fs m s) else Done (refreshed gj fs m s))"
proof -
  from p obtain c' where g: "geojson chg = Some c'" "currentValue c' = Some gj"
    by (auto simp: payload_of_def split: option.splits)
  have "ngOnChanges f chg s =
          and_then (and_then (remove_current s) (loadGeojson f gj))
            (\<lambda>s2. if previousValue c' \<noteq> None \<and> zoomOnLayer s2 then reframe s2 else Done s2)"
    using g by (simp add: ngOnChanges_def and_then_assoc)
  also have "\<dots> = (if previousValue c' \<noteq> None \<and> zoomOnLayer s
            then reframe (refreshed gj fs m s) else Done (refreshed gj fs m s))"
    using b c f by (simp add: load_after_remove zoomOnLayer_refreshed)
  finally show ?thesis
    using g by (simp add: previous_of_def)
qed

section \<open>The reframe step\<close>

lemma join_None: "join None b = b"
  by (cases b) (simp_all add: join_def)

lemma refreshed_fields:
  "currentGeojson (refreshed gj fs m s) = Some (next_ref s)"
  "svc_layerGroup (refreshed gj fs m s) = Some (Suc (next_ref s))"
  "geojsonCharged (refreshed gj fs m s) = subject_next (next_ref s) (geojsonCharged s)"
  "this_map (refreshed gj fs m s) = this_map s"
  "svc_map (refreshed gj fs m s) = svc_map s"
  "onEachFeature (refreshed gj fs m s) = onEachFeature s"
  "console (refreshed gj fs m s) = console s"
  "next_ref (refreshed gj fs m s) = Suc (Suc (next_ref s))"
  by (simp_all add: refreshed_def Let_def)

lemma refreshed_heap:
  assumes "bound s m"
  shows "heap (refreshed gj fs m s) (next_ref s) = Some (LayerObj fs)"
    and "heap (refreshed gj fs m s) (Suc (next_ref s)) = Some (GroupObj [next_ref s] (Some m))"
    and "heap (refreshed gj fs m s) m =
           Some (MapObj ((case currentGeojson s of None \<Rightarrow> registry s m
                          | Some old \<Rightarrow> removeAll old (registry s m))
                         @ [Suc (next_ref s), next_ref s]) (the (viewport s m)))"
    and "r < next_ref s \<Longrightarrow> r \<noteq> m \<Longrightarrow> heap (refreshed gj fs m s) r = heap s r"
  using assms by (auto simp: refreshed_def Let_def bound_def)

lemma refreshed_registry:
  "registry (refreshed gj fs m s) m =
     (case currentGeojson s of None \<Rightarrow> registry s m
      | Some old \<Rightarrow> removeAll old (registry s m)) @ [Suc (next_ref s), next_ref s]"
  by (cases "currentGeojson s") (simp_all add: refreshed_def Let_def registry_def)

lemma refreshed_viewport:
  "bound s m \<Longrightarrow> viewport (refreshed gj fs m s) m = viewport s m"
  by (auto simp: refreshed_def Let_def viewport_def bound_def)

lemma refreshed_getBounds:
  assumes "bound s m"
  shows "group_getBounds (refreshed gj fs m s) (Suc (next_ref s)) = Inr (bounds_of fs)"
  using assms
  by (simp add: group_getBounds_def refreshed_heap extent_of_def join_None)

lemma try_fit_refreshed:
  assumes b: "bound s m" and t: "this_map s = Some m"
  shows "try_fit (refreshed gj fs m s) =
           (case bounds_of fs of
              None \<Rightarrow> Thrown BoundsError (refreshed gj fs m s)
            | Some bb \<Rightarrow>
                Done ((refreshed gj fs m s)
                  \<lparr>heap := (heap (refreshed gj fs m s))
                     (m \<mapsto> MapObj (registry (refreshed gj fs m s) m) bb)\<rparr>))"
  using b t
  by (simp add: try_fit_def refreshed_fields refreshed_getBounds [OF b] map_fitBounds_def
    refreshed_heap(3) [OF b] refreshed_registry split: option.splits)

lemma reframe_refreshed:
  assumes b: "bound s m" and t: "this_map s = Some m"
  shows "reframe (refreshed gj fs m s) =
           (case bounds_of fs of
              None \<Rightarrow> Done ((refreshed gj fs m s)
                         \<lparr>console := console s @ [''no layer in featuregroup'']\<rparr>)
            | Some bb \<Rightarrow>
                Done ((refreshed gj fs m s)
                  \<lparr>heap := (heap (refreshed gj fs m s))
                     (m \<mapsto> MapObj (registry (refreshed gj fs m s) m) bb)\<rparr>))"
  by (simp add: reframe_def try_fit_refreshed [OF b t] refreshed_fields split: option.splits)

lemma view_only_refl: "view_only s s"
  by (simp add: view_only_def)

lemma view_only_console: "view_only s (s\<lparr>console := c\<rparr>)"
  by (simp add: view_only_def)

lemma view_only_map_fitBounds: "view_only s (result_state (map_fitBounds m b s))"
  by (auto simp: view_only_def map_fitBounds_def split: option.splits obj.splits)

lemma thrown_state_map_fitBounds: "map_fitBounds m b s = Thrown e s' \<Longrightarrow> s' = s"
  by (auto simp: map_fitBounds_def split: option.splits obj.splits)

lemma view_only_try_fit: "view_only s (result_state (try_fit s))"
  by (auto simp: try_fit_def view_only_refl view_only_map_fitBounds split: option.splits sum.splits)

lemma thrown_state_try_fit: "try_fit s = Thrown e s' \<Longrightarrow> s' = s"
  by (auto simp: try_fit_def dest: thrown_state_map_fitBounds split: option.splits sum.splits)

lemma reframe_returns: "thrown (reframe s) = None"
  by (simp add: reframe_def split: outcome.splits)

lemma view_only_reframe: "view_only s (result_state (reframe s))"
proof (cases "try_fit s")
  case (Done s')
  with view_only_try_fit [of s] show ?thesis by (simp add: reframe_def)
next
  case (Thrown e s')
  then have "s' = s" by (rule thrown_state_try_fit)
  with Thrown show ?thesis by (simp add: reframe_def view_only_console)
qed

lemma console_update_reads:
  "registry (s\<lparr>console := c\<rparr>) = registry s"
  "viewport (s\<lparr>console := c\<rparr>) = viewport s"
  "extent_of (s\<lparr>console := c\<rparr>) = extent_of s"
  "layers_on (s\<lparr>console := c\<rparr>) = layers_on s"
  "groups_on (s\<lparr>console := c\<rparr>) = groups_on s"
  by (simp_all add: fun_eq_iff registry_def viewport_def extent_of_def
    layers_on_def groups_on_def)

lemma console_update_getBounds:
  "group_getBounds (s\<lparr>console := c\<rparr>) g = group_getBounds s g"
  by (simp add: group_getBounds_def console_update_reads(3) split: option.splits obj.splits)

lemma ngOnChanges_unzoomed:
  assumes p: "payload_of chg = Some gj" and b: "bound s m" and c: "current_ok s"
    and f: "f gj None (onEachFeature s) = Some fs"
  shows "ngOnChanges f chg (s\<lparr>zoomOnLayer := False\<rparr>)
           = Done ((refreshed gj fs m s)\<lparr>zoomOnLayer := False\<rparr>)"
proof -
  have b': "bound (s\<lparr>zoomOnLayer := False\<rparr>) m"
    using b by (simp add: bound_def viewport_def registry_def)
  have c': "current_ok (s\<lparr>zoomOnLayer := False\<rparr>)"
    using c by (simp add: current_ok_def split: option.splits)
  have f': "f gj None (onEachFeature (s\<lparr>zoomOnLayer := False\<rparr>)) = Some fs"
    using f by simp
  have "ngOnChanges f chg (s\<lparr>zoomOnLayer := False\<rparr>)
          = Done (refreshed gj fs m (s\<lparr>zoomOnLayer := False\<rparr>))"
    using ngOnChanges_refresh [where f = f, OF p b' c' f'] by simp
  moreover have "refreshed gj fs m (s\<lparr>zoomOnLayer := False\<rparr>)
          = (refreshed gj fs m s)\<lparr>zoomOnLayer := False\<rparr>"
    by (simp add: refreshed_def Let_def registry_def viewport_def)
  ultimately show ?thesis by simp
qed


section \<open>Facts about the sample world\<close>

lemma loaded_world_eq:
  "loaded_world =
     \<lparr>this_map = Some 0, currentGeojson = Some 1, onEachFeature = None, zoomOnLayer = True,
      asCluste = False,
      geojsonCharged = \<lparr>observers = [], isStopped = False, emitted = [1], inbox = []\<rparr>,
      svc_map = Some 0, svc_layerGroup = Some 2,
      heap = (Map.empty(0 \<mapsto> MapObj [2, 1] ((0, 0), (10, 10)),
                        1 \<mapsto> LayerObj [((1, 1), (2, 2))],
                        2 \<mapsto> GroupObj [1] (Some 0))),
      next_ref = 3, console = [],
      calls = [CreateGeojson (Geo 1) None None, Next 1, NewFeatureGroup 2, AddLayer 0 2,
               GroupAddLayer 2 1],
      frames = [(0, [2]), (0, [2, 1])]\<rparr>"
  by (simp add: loaded_world_def dispatch_def ngOnInit_def ngOnChanges_def change_def
    sample_world_def constructed_def remove_current_def
    loadGeojson_def sample_factory_def Let_def map_addLayer_def register_def set_group_map_def
    children_of_def group_addLayer_def subject_next_def numeral_2_eq_2 fun_upd_twist)

lemma sample_world_facts:
  "bound sample_world 0" "current_ok sample_world" "tracked sample_world 0"
  "zoomOnLayer sample_world" "onEachFeature sample_world = None"
  "currentGeojson sample_world = None" "this_map sample_world = None"
  "\<not> isStopped (geojsonCharged sample_world)"
  by (simp_all add: sample_world_def constructed_def bound_def current_ok_def tracked_def
    viewport_def registry_def layers_on_def)

lemma loaded_world_facts:
  "bound loaded_world 0" "current_ok loaded_world" "tracked loaded_world 0"
  "zoomOnLayer loaded_world" "onEachFeature loaded_world = None"
  "currentGeojson loaded_world = Some 1" "this_map loaded_world = Some 0"
  "\<not> isStopped (geojsonCharged loaded_world)" "next_ref loaded_world = 3"
  "registry loaded_world 0 = [2, 1]" "viewport loaded_world 0 = Some ((0, 0), (10, 10))"
  "is_layer (heap loaded_world 1)" "console loaded_world = []"
  by (simp_all add: loaded_world_eq bound_def current_ok_def tracked_def
    viewport_def registry_def layers_on_def)

lemma sample_change_facts:
  "payload_of (change p c) = c" "previous_of (change p c) = p"
  "hook_payload (OnChanges (change p c)) = c"
  by (simp_all add: payload_of_def previous_of_def change_def hook_payload_def)

lemma sample_factory_facts:
  "sample_factory (Geo 0) None None = Some []"
  "sample_factory (Geo 1) None None = Some [((1, 1), (2, 2))]"
  "sample_factory (Geo 2) None None = Some [((2, 2), (3, 3))]"
  "sample_factory (Geo 99) None None = None"
  "bounds_of [] = None"
  "bounds_of [((2, 2), (3, 3))] = Some ((2, 2), (3, 3))"
  by (simp_all add: sample_factory_def bounds_of_def)

section \<open>Change events without a payload\<close>

text \<open>
  Claim C9. A change event whose new \<open>geojson\<close> value is \<open>undefined\<close>, or that does not
  concern the \<open>geojson\<close> input, skips the refresh entirely: \<open>ngOnChanges\<close> returns and
  the whole state is what it was, so no layer is built, no call is made on the factory
  or the map, nothing is emitted, and the current layer is the same.
\<close>

theorem ngOnChanges_without_payload:
  "payload_of chg = None \<Longrightarrow> ngOnChanges createGeojson chg s = Done s"
  by (simp add: ngOnChanges_def payload_of_def split: option.splits)

theorem ngOnChanges_without_payload_witness:
  "payload_of (change (Some (Geo 1)) None) = None
   \<and> ngOnChanges sample_factory (change (Some (Geo 1)) None) sample_world = Done sample_world
   \<and> payload_of other_change = None
   \<and> ngOnChanges sample_factory other_change sample_world = Done sample_world"
proof -
  have a: "payload_of (change (Some (Geo 1)) None) = None"
    by (simp add: payload_of_def change_def)
  have b: "payload_of other_change = None"
    by (simp add: payload_of_def other_change_def)
  show ?thesis
    using a b ngOnChanges_without_payload [OF a, of sample_factory sample_world]
      ngOnChanges_without_payload [OF b, of sample_factory sample_world]
    by simp
qed

section \<open>The clustering argument of the factory\<close>

text \<open>
  Claim C2. A refresh should call the factory with the payload, the value of the
  clustering input and the callback. With the clustering input \<open>asCluste\<close> set to true,
  the call the component makes on the factory carries \<open>undefined\<close> (\<open>None\<close>) as its
  clustering argument, not true: \<open>loadGeojson\<close> reads \<open>this.asCluster\<close>, which is not the
  declared input.
\<close>

theorem cluster_input_not_passed:
  "asCluste (sample_world\<lparr>asCluste := True\<rparr>)
   \<and> calls (result_state (ngOnChanges sample_factory (change None (Some (Geo 1)))
              (sample_world\<lparr>asCluste := True\<rparr>)))
     = [CreateGeojson (Geo 1) None None, Next 1, NewFeatureGroup 2, AddLayer 0 2,
        GroupAddLayer 2 1]"
  by (simp add: ngOnChanges_def change_def sample_world_def constructed_def remove_current_def
    loadGeojson_def sample_factory_def Let_def map_addLayer_def register_def set_group_map_def
    children_of_def group_addLayer_def)

section \<open>A reframe that fails\<close>

text \<open>
  Claim C8. When the reframe step is reached and the extent of the just-installed group
  cannot be computed (the new layer has no feature, so \<open>getBounds\<close> yields the empty
  extent and \<open>fitBounds\<close> raises), the failure is caught: \<open>ngOnChanges\<close> returns
  normally, the state is the one the same refresh reaches with the reframe option off,
  but for one more line on the console, and the viewport of the map is what it was.
\<close>

theorem reframe_failure_suppressed:
  assumes p: "payload_of chg = Some gj" and v: "previous_of chg \<noteq> None"
    and z: "zoomOnLayer s" and b: "bound s m" and t: "this_map s = Some m"
    and c: "current_ok s" and f: "createGeojson gj None (onEachFeature s) = Some fs"
    and e: "bounds_of fs = None"
  shows "thrown (ngOnChanges createGeojson chg (s\<lparr>zoomOnLayer := False\<rparr>)) = None
    \<and> ngOnChanges createGeojson chg s =
        Done ((result_state (ngOnChanges createGeojson chg (s\<lparr>zoomOnLayer := False\<rparr>)))
               \<lparr>zoomOnLayer := True, console := console s @ [''no layer in featuregroup'']\<rparr>)
    \<and> viewport (result_state (ngOnChanges createGeojson chg s)) m = viewport s m
    \<and> group_getBounds (result_state (ngOnChanges createGeojson chg s)) (Suc (next_ref s))
        = Inr None"
proof -
  have u: "ngOnChanges createGeojson chg (s\<lparr>zoomOnLayer := False\<rparr>)
             = Done ((refreshed gj fs m s)\<lparr>zoomOnLayer := False\<rparr>)"
    using p b c f by (rule ngOnChanges_unzoomed)
  have r: "ngOnChanges createGeojson chg s =
             Done ((refreshed gj fs m s)\<lparr>console := console s @ [''no layer in featuregroup'']\<rparr>)"
    using ngOnChanges_refresh [where f = createGeojson, OF p b c f] v z e
      reframe_refreshed [OF b t, of gj fs]
    by simp
  have zr: "zoomOnLayer (refreshed gj fs m s)"
    using z by (simp add: zoomOnLayer_refreshed)
  have 1: "thrown (ngOnChanges createGeojson chg (s\<lparr>zoomOnLayer := False\<rparr>)) = None"
    by (simp add: u)
  have 2: "ngOnChanges createGeojson chg s =
        Done ((result_state (ngOnChanges createGeojson chg (s\<lparr>zoomOnLayer := False\<rparr>)))
               \<lparr>zoomOnLayer := True, console := console s @ [''no layer in featuregroup'']\<rparr>)"
    using zr by (simp add: u r)
  have 3: "viewport (result_state (ngOnChanges createGeojson chg s)) m = viewport s m"
    using refreshed_viewport [OF b, of gj fs]
    by (simp add: r console_update_reads)
  have 4: "group_getBounds (result_state (ngOnChanges createGeojson chg s)) (Suc (next_ref s))
        = Inr None"
    using refreshed_getBounds [OF b, of gj fs] e
    by (simp add: r console_update_getBounds)
  from 1 2 3 4 show ?thesis by simp
qed

theorem reframe_failure_suppressed_witness:
  "payload_of (change (Some (Geo 1)) (Some (Geo 0))) = Some (Geo 0)
   \<and> previous_of (change (Some (Geo 1)) (Some (Geo 0))) \<noteq> None
   \<and> zoomOnLayer loaded_world \<and> bound loaded_world 0 \<and> this_map loaded_world = Some 0
   \<and> current_ok loaded_world
   \<and> sample_factory (Geo 0) None (onEachFeature loaded_world) = Some []
   \<and> bounds_of [] = None
   \<and> thrown (ngOnChanges sample_factory (change (Some (Geo 1)) (Some (Geo 0))) loaded_world)
       = None
   \<and> console (result_state
        (ngOnChanges sample_factory (change (Some (Geo 1)) (Some (Geo 0))) loaded_world))
       = [''no layer in featuregroup'']
   \<and> viewport (result_state
        (ngOnChanges sample_factory (change (Some (Geo 1)) (Some (Geo 0))) loaded_world)) 0
       = Some ((0, 0), (10, 10))"
proof -
  have p: "payload_of (change (Some (Geo 1)) (Some (Geo 0))) = Some (Geo 0)"
    by (simp add: sample_change_facts)
  have v: "previous_of (change (Some (Geo 1)) (Some (Geo 0))) \<noteq> None"
    by (simp add: sample_change_facts)
  have f: "sample_factory (Geo 0) None (onEachFeature loaded_world) = Some []"
    by (simp add: loaded_world_facts sample_factory_facts)
  note w = loaded_world_facts
  note th = reframe_failure_suppressed [where createGeojson = sample_factory,
    OF p v w(4) w(1) w(7) w(2) f sample_factory_facts(5)]
  have 1: "thrown (ngOnChanges sample_factory (change (Some (Geo 1)) (Some (Geo 0)))
             loaded_world) = None"
    using th [THEN conjunct2, THEN conjunct1] by simp
  have 2: "console (result_state
        (ngOnChanges sample_factory (change (Some (Geo 1)) (Some (Geo 0))) loaded_world))
       = [''no layer in featuregroup'']"
    using th [THEN conjunct2, THEN conjunct1] by (simp add: w(13))
  have 3: "viewport (result_state
        (ngOnChanges sample_factory (change (Some (Geo 1)) (Some (Geo 0))) loaded_world)) 0
       = Some ((0, 0), (10, 10))"
    using th [THEN conjunct2, THEN conjunct2, THEN conjunct1] by (simp add: w(11))
  show ?thesis
    using p v f w(1,2,4,7) 1 2 3 by (simp add: sample_factory_facts(5))
qed

section \<open>When the viewport is reframed\<close>

lemma heap_update_reads:
  "heap s m = Some (MapObj reg vp) \<Longrightarrow>
     registry (s\<lparr>heap := (heap s)(m \<mapsto> MapObj reg vp')\<rparr>) = registry s"
  "heap s m = Some (MapObj reg vp) \<Longrightarrow>
     extent_of (s\<lparr>heap := (heap s)(m \<mapsto> MapObj reg vp')\<rparr>) = extent_of s"
  by (auto simp: fun_eq_iff registry_def extent_of_def)

lemma viewport_update_getBounds:
  "heap s m = Some (MapObj reg vp) \<Longrightarrow>
     group_getBounds (s\<lparr>heap := (heap s)(m \<mapsto> MapObj reg vp')\<rparr>) g = group_getBounds s g"
  by (auto simp: group_getBounds_def heap_update_reads(2) split: option.splits obj.splits)

lemma sample_world_viewport: "viewport sample_world 0 = Some ((0, 0), (10, 10))"
  by (simp add: sample_world_def constructed_def viewport_def)


text \<open>
  Claim C6 says that, with the reframe option on, every refresh after the first payload
  fits the viewport to the new group. It fails when the input was reset to \<open>undefined\<close>
  in between: here the component has processed a first payload and is initialised, the
  input goes back to \<open>undefined\<close> and then receives a second, different payload. The
  refresh for that payload installs a group whose extent is computable, and leaves the
  viewport where it was.
\<close>

theorem no_reframe_after_reset: 
  "currentGeojson loaded_world = Some 1 \<and> zoomOnLayer loaded_world
   \<and> this_map loaded_world = Some 0
   \<and> thrown (run sample_factory
        [OnChanges (change (Some (Geo 1)) None), OnChanges (change None (Some (Geo 2)))]
        loaded_world) = None
   \<and> svc_layerGroup (result_state (run sample_factory
        [OnChanges (change (Some (Geo 1)) None), OnChanges (change None (Some (Geo 2)))]
        loaded_world)) = Some 4
   \<and> group_getBounds (result_state (run sample_factory
        [OnChanges (change (Some (Geo 1)) None), OnChanges (change None (Some (Geo 2)))]
        loaded_world)) 4 = Inr (Some ((2, 2), (3, 3)))
   \<and> viewport (result_state (run sample_factory
        [OnChanges (change (Some (Geo 1)) None), OnChanges (change None (Some (Geo 2)))]
        loaded_world)) 0 = Some ((0, 0), (10, 10))"
proof -
  have 1: "dispatch sample_factory (OnChanges (change (Some (Geo 1)) None)) loaded_world
             = Done loaded_world"
    by (simp add: dispatch_def ngOnChanges_def change_def)
  have 2: "dispatch sample_factory (OnChanges (change None (Some (Geo 2)))) loaded_world
             = Done (refreshed (Geo 2) [((2, 2), (3, 3))] 0 loaded_world)"
    using ngOnChanges_refresh [where f = sample_factory and chg = "change None (Some (Geo 2))"
        and s = loaded_world and m = 0 and gj = "Geo 2" and fs = "[((2, 2), (3, 3))]"]
    by (simp add: dispatch_def sample_change_facts loaded_world_facts sample_factory_facts)
  have r: "run sample_factory
        [OnChanges (change (Some (Geo 1)) None), OnChanges (change None (Some (Geo 2)))]
        loaded_world = Done (refreshed (Geo 2) [((2, 2), (3, 3))] 0 loaded_world)"
    by (simp only: run.simps 1 2 and_then.simps)
  have n: "Suc (Suc (Suc 0)) = 3" "Suc 3 = 4" by simp_all
  show ?thesis
    unfolding r
    using refreshed_getBounds [OF loaded_world_facts(1), of "Geo 2" "[((2, 2), (3, 3))]"]
      refreshed_viewport [OF loaded_world_facts(1), of "Geo 2" "[((2, 2), (3, 3))]"]
    by (simp add: loaded_world_facts refreshed_fields sample_factory_facts)
qed

text \<open>
  Claim C6, as amended. With the reframe option on, a refresh whose change event has no
  previous value (the first payload, and also the first payload after the input was reset
  to \<open>undefined\<close>) leaves the viewport as it was. A refresh whose change event has a
  previous value fits the viewport of the map bound at initialisation to the extent of
  the contents of the just-installed group, when that extent is computable. In both
  cases \<open>ngOnChanges\<close> returns normally.
\<close>

theorem reframe_when_previous_value:
  assumes p: "payload_of chg = Some gj" and z: "zoomOnLayer s" and b: "bound s m"
    and c: "current_ok s" and f: "createGeojson gj None (onEachFeature s) = Some fs"
  shows "thrown (ngOnChanges createGeojson chg s) = None
    \<and> (previous_of chg = None \<longrightarrow>
         viewport (result_state (ngOnChanges createGeojson chg s)) m = viewport s m)
    \<and> (previous_of chg \<noteq> None \<and> this_map s = Some m \<and> bounds_of fs \<noteq> None \<longrightarrow>
         svc_layerGroup (result_state (ngOnChanges createGeojson chg s))
           = Some (Suc (next_ref s))
         \<and> group_getBounds (result_state (ngOnChanges createGeojson chg s)) (Suc (next_ref s))
           = Inr (bounds_of fs)
         \<and> viewport (result_state (ngOnChanges createGeojson chg s)) m = bounds_of fs)"
proof -
  note r = ngOnChanges_refresh [where f = createGeojson, OF p b c f]
  have 1: "thrown (ngOnChanges createGeojson chg s) = None"
    by (simp add: r reframe_returns)
  have 2: "viewport (result_state (ngOnChanges createGeojson chg s)) m = viewport s m"
    if "previous_of chg = None"
    using that by (simp add: r refreshed_viewport [OF b])
  have 3: "svc_layerGroup (result_state (ngOnChanges createGeojson chg s))
           = Some (Suc (next_ref s))
         \<and> group_getBounds (result_state (ngOnChanges createGeojson chg s)) (Suc (next_ref s))
           = Inr (bounds_of fs)
         \<and> viewport (result_state (ngOnChanges createGeojson chg s)) m = bounds_of fs"
    if v: "previous_of chg \<noteq> None" and t: "this_map s = Some m" and e: "bounds_of fs \<noteq> None"
  proof -
    from e obtain bb where bb: "bounds_of fs = Some bb" by auto
    have n: "ngOnChanges createGeojson chg s =
               Done ((refreshed gj fs m s)
                  \<lparr>heap := (heap (refreshed gj fs m s))
                     (m \<mapsto> MapObj (registry (refreshed gj fs m s) m) bb)\<rparr>)"
      using v z by (simp add: r reframe_refreshed [OF b t] bb)
    have h: "heap (refreshed gj fs m s) m
               = Some (MapObj (registry (refreshed gj fs m s) m) (the (viewport s m)))"
      by (simp add: refreshed_heap(3) [OF b] refreshed_registry)
    show ?thesis
      using refreshed_getBounds [OF b, of gj fs]
      by (simp add: n refreshed_fields viewport_update_getBounds [OF h] bb viewport_def)
  qed
  from 1 2 3 show ?thesis by blast
qed

theorem reframe_when_previous_value_witness:
  "payload_of (change None (Some (Geo 1))) = Some (Geo 1)
   \<and> zoomOnLayer sample_world \<and> bound sample_world 0 \<and> current_ok sample_world
   \<and> sample_factory (Geo 1) None (onEachFeature sample_world) = Some [((1, 1), (2, 2))]
   \<and> previous_of (change None (Some (Geo 1))) = None
   \<and> thrown (ngOnChanges sample_factory (change None (Some (Geo 1))) sample_world) = None
   \<and> viewport (result_state
         (ngOnChanges sample_factory (change None (Some (Geo 1))) sample_world)) 0
       = Some ((0, 0), (10, 10))
   \<and> payload_of (change (Some (Geo 1)) (Some (Geo 2))) = Some (Geo 2)
   \<and> zoomOnLayer loaded_world \<and> bound loaded_world 0 \<and> current_ok loaded_world
   \<and> sample_factory (Geo 2) None (onEachFeature loaded_world) = Some [((2, 2), (3, 3))]
   \<and> previous_of (change (Some (Geo 1)) (Some (Geo 2))) \<noteq> None
   \<and> this_map loaded_world = Some 0 \<and> bounds_of [((2, 2), (3, 3))] \<noteq> None
   \<and> viewport (result_state
         (ngOnChanges sample_factory (change (Some (Geo 1)) (Some (Geo 2))) loaded_world)) 0
       = Some ((2, 2), (3, 3))"
proof -
  note sw = sample_world_facts and lw = loaded_world_facts
  have pa: "payload_of (change None (Some (Geo 1))) = Some (Geo 1)"
    and va: "previous_of (change None (Some (Geo 1))) = None"
    and pb: "payload_of (change (Some (Geo 1)) (Some (Geo 2))) = Some (Geo 2)"
    and vb: "previous_of (change (Some (Geo 1)) (Some (Geo 2))) \<noteq> None"
    by (simp_all add: sample_change_facts)
  have fa: "sample_factory (Geo 1) None (onEachFeature sample_world) = Some [((1, 1), (2, 2))]"
    by (simp only: sw(5) sample_factory_facts(2))
  have fb: "sample_factory (Geo 2) None (onEachFeature loaded_world) = Some [((2, 2), (3, 3))]"
    by (simp only: lw(5) sample_factory_facts(3))
  have eb: "bounds_of [((2, 2), (3, 3))] \<noteq> None"
    by (simp add: sample_factory_facts)
  note ta = reframe_when_previous_value [where createGeojson = sample_factory,
    OF pa sw(4) sw(1) sw(2) fa]
  note tb = reframe_when_previous_value [where createGeojson = sample_factory,
    OF pb lw(4) lw(1) lw(2) fb]
  have 1: "thrown (ngOnChanges sample_factory (change None (Some (Geo 1))) sample_world) = None"
    using ta [THEN conjunct1] .
  have 2: "viewport (result_state
         (ngOnChanges sample_factory (change None (Some (Geo 1))) sample_world)) 0
       = Some ((0, 0), (10, 10))"
    using ta [THEN conjunct2, THEN conjunct1] va by (simp add: sample_world_viewport)
  have 3: "viewport (result_state
         (ngOnChanges sample_factory (change (Some (Geo 1)) (Some (Geo 2))) loaded_world)) 0
       = Some ((2, 2), (3, 3))"
    using tb [THEN conjunct2, THEN conjunct2] vb lw(7) eb
    by (simp add: sample_factory_facts)
  show ?thesis
    using pa va pb vb fa fb eb sw(1,2,4) lw(1,2,4,7) 1 2 3 by simp
qed

section \<open>The order of removal and installation\<close>

lemma view_only_fields:
  assumes "view_only s t"
  shows "calls t = calls s" "frames t = frames s" "currentGeojson t = currentGeojson s"
    "svc_layerGroup t = svc_layerGroup s" "geojsonCharged t = geojsonCharged s"
    "next_ref t = next_ref s" "onEachFeature t = onEachFeature s" "svc_map t = svc_map s"
    "this_map t = this_map s" "zoomOnLayer t = zoomOnLayer s" "asCluste t = asCluste s"
proof -
  from assms have e: "t = s\<lparr>heap := heap t, console := console t\<rparr>"
    by (simp add: view_only_def)
  show "calls t = calls s" by (subst e) simp
  show "frames t = frames s" by (subst e) simp
  show "currentGeojson t = currentGeojson s" by (subst e) simp
  show "svc_layerGroup t = svc_layerGroup s" by (subst e) simp
  show "geojsonCharged t = geojsonCharged s" by (subst e) simp
  show "next_ref t = next_ref s" by (subst e) simp
  show "onEachFeature t = onEachFeature s" by (subst e) simp
  show "svc_map t = svc_map s" by (subst e) simp
  show "this_map t = this_map s" by (subst e) simp
  show "zoomOnLayer t = zoomOnLayer s" by (subst e) simp
  show "asCluste t = asCluste s" by (subst e) simp
qed

lemma view_only_heap:
  assumes "view_only s t"
  shows "registry t x = registry s x" "is_layer (heap t r) = is_layer (heap s r)"
    "is_group (heap t r) = is_group (heap s r)"
    "heap s r = Some (LayerObj fs) \<Longrightarrow> heap t r = Some (LayerObj fs)"
    "heap s r = Some (GroupObj ch gm) \<Longrightarrow> heap t r = Some (GroupObj ch gm)"
proof -
  from assms have h: "heap t y = heap s y \<or>
      (\<exists>reg vp vp'. heap s y = Some (MapObj reg vp) \<and> heap t y = Some (MapObj reg vp'))" for y
    by (simp add: view_only_def)
  show "registry t x = registry s x" using h [of x] by (auto simp: registry_def)
  show "is_layer (heap t r) = is_layer (heap s r)" using h [of r] by auto
  show "is_group (heap t r) = is_group (heap s r)" using h [of r] by auto
  show "heap s r = Some (LayerObj fs) \<Longrightarrow> heap t r = Some (LayerObj fs)" using h [of r] by auto
  show "heap s r = Some (GroupObj ch gm) \<Longrightarrow> heap t r = Some (GroupObj ch gm)"
    using h [of r] by auto
qed

lemma view_only_on:
  assumes "view_only s t"
  shows "layers_on t m = layers_on s m" "groups_on t m = groups_on s m"
  by (simp_all add: layers_on_def groups_on_def view_only_heap(1,2,3) [OF assms])

lemma ngOnChanges_view_only:
  assumes p: "payload_of chg = Some gj" and b: "bound s m" and c: "current_ok s"
    and f: "f gj None (onEachFeature s) = Some fs"
  shows "thrown (ngOnChanges f chg s) = None"
    and "view_only (refreshed gj fs m s) (result_state (ngOnChanges f chg s))"
  using ngOnChanges_refresh [where f = f, OF p b c f]
  by (simp_all add: reframe_returns view_only_reframe view_only_refl)

lemma loaded_world_logs:
  "calls loaded_world = [CreateGeojson (Geo 1) None None, Next 1, NewFeatureGroup 2,
                         AddLayer 0 2, GroupAddLayer 2 1]"
  "frames loaded_world = [(0, [2]), (0, [2, 1])]"
  by (simp_all add: loaded_world_eq)

lemma sample_world_logs:
  "calls sample_world = []" "frames sample_world = []" "next_ref sample_world = 1"
  "registry sample_world 0 = []"
  by (simp_all add: sample_world_def constructed_def registry_def)


text \<open>
  Claim C4. In a refresh that finds a previous layer on the map, the first call is the
  removal of that layer from the map, before the factory, the channel and the new group
  are touched; of the registries the map goes through during the refresh, none holds the
  old layer, so the old and the new layer are never on the map together. In a refresh
  that finds no previous layer, nothing is removed: the calls only add.
\<close>

theorem remove_before_add:
  assumes p: "payload_of chg = Some gj" and b: "bound s m" and c: "current_ok s"
    and f: "createGeojson gj None (onEachFeature s) = Some fs"
  shows "(currentGeojson s = Some old \<and> old \<in> set (registry s m) \<longrightarrow>
            calls (result_state (ngOnChanges createGeojson chg s))
              = calls s @ [RemoveLayer m old, CreateGeojson gj None (onEachFeature s),
                           Next (next_ref s), NewFeatureGroup (Suc (next_ref s)),
                           AddLayer m (Suc (next_ref s)),
                           GroupAddLayer (Suc (next_ref s)) (next_ref s)]
          \<and> frames (result_state (ngOnChanges createGeojson chg s))
              = frames s @ [(m, removeAll old (registry s m)),
                            (m, removeAll old (registry s m) @ [Suc (next_ref s)]),
                            (m, removeAll old (registry s m) @ [Suc (next_ref s), next_ref s])]
          \<and> (\<forall>fr\<in>set (drop (length (frames s))
                            (frames (result_state (ngOnChanges createGeojson chg s)))).
                old \<notin> set (snd fr))
          \<and> old \<notin> set (registry (result_state (ngOnChanges createGeojson chg s)) m))
       \<and> (currentGeojson s = None \<longrightarrow>
            calls (result_state (ngOnChanges createGeojson chg s))
              = calls s @ [CreateGeojson gj None (onEachFeature s),
                           Next (next_ref s), NewFeatureGroup (Suc (next_ref s)),
                           AddLayer m (Suc (next_ref s)),
                           GroupAddLayer (Suc (next_ref s)) (next_ref s)]
          \<and> frames (result_state (ngOnChanges createGeojson chg s))
              = frames s @ [(m, registry s m @ [Suc (next_ref s)]),
                            (m, registry s m @ [Suc (next_ref s), next_ref s])])"
proof -
  note v = ngOnChanges_view_only(2) [where f = createGeojson, OF p b c f]
  note vf = view_only_fields(1,2) [OF v] and vr = view_only_heap(1) [OF v]
  have 1: "calls (result_state (ngOnChanges createGeojson chg s))
              = calls s @ [RemoveLayer m old, CreateGeojson gj None (onEachFeature s),
                           Next (next_ref s), NewFeatureGroup (Suc (next_ref s)),
                           AddLayer m (Suc (next_ref s)),
                           GroupAddLayer (Suc (next_ref s)) (next_ref s)]
          \<and> frames (result_state (ngOnChanges createGeojson chg s))
              = frames s @ [(m, removeAll old (registry s m)),
                            (m, removeAll old (registry s m) @ [Suc (next_ref s)]),
                            (m, removeAll old (registry s m) @ [Suc (next_ref s), next_ref s])]
          \<and> (\<forall>fr\<in>set (drop (length (frames s))
                            (frames (result_state (ngOnChanges createGeojson chg s)))).
                old \<notin> set (snd fr))
          \<and> old \<notin> set (registry (result_state (ngOnChanges createGeojson chg s)) m)"
    if o: "currentGeojson s = Some old" and r: "old \<in> set (registry s m)"
  proof -
    from b r have "old < next_ref s" by (simp add: bound_def)
    then have n: "old \<noteq> next_ref s" "old \<noteq> Suc (next_ref s)" by simp_all
    show ?thesis
      using o r n by (simp add: vf vr refreshed_registry) (simp add: refreshed_def Let_def)
  qed
  have 2: "calls (result_state (ngOnChanges createGeojson chg s))
              = calls s @ [CreateGeojson gj None (onEachFeature s),
                           Next (next_ref s), NewFeatureGroup (Suc (next_ref s)),
                           AddLayer m (Suc (next_ref s)),
                           GroupAddLayer (Suc (next_ref s)) (next_ref s)]
          \<and> frames (result_state (ngOnChanges createGeojson chg s))
              = frames s @ [(m, registry s m @ [Suc (next_ref s)]),
                            (m, registry s m @ [Suc (next_ref s), next_ref s])]"
    if "currentGeojson s = None"
    using that by (simp add: vf) (simp add: refreshed_def Let_def)
  from 1 2 show ?thesis by blast
qed

theorem remove_before_add_witness:
  "payload_of (change (Some (Geo 1)) (Some (Geo 2))) = Some (Geo 2)
   \<and> bound loaded_world 0 \<and> current_ok loaded_world
   \<and> sample_factory (Geo 2) None (onEachFeature loaded_world) = Some [((2, 2), (3, 3))]
   \<and> currentGeojson loaded_world = Some 1 \<and> 1 \<in> set (registry loaded_world 0)
   \<and> frames (result_state
         (ngOnChanges sample_factory (change (Some (Geo 1)) (Some (Geo 2))) loaded_world))
       = [(0, [2]), (0, [2, 1]), (0, [2]), (0, [2, 4]), (0, [2, 4, 3])]
   \<and> calls (result_state
         (ngOnChanges sample_factory (change (Some (Geo 1)) (Some (Geo 2))) loaded_world))
       = [CreateGeojson (Geo 1) None None, Next 1, NewFeatureGroup 2, AddLayer 0 2,
          GroupAddLayer 2 1, RemoveLayer 0 1, CreateGeojson (Geo 2) None None, Next 3,
          NewFeatureGroup 4, AddLayer 0 4, GroupAddLayer 4 3]
   \<and> payload_of (change None (Some (Geo 1))) = Some (Geo 1)
   \<and> bound sample_world 0 \<and> current_ok sample_world
   \<and> sample_factory (Geo 1) None (onEachFeature sample_world) = Some [((1, 1), (2, 2))]
   \<and> currentGeojson sample_world = None
   \<and> frames (result_state
         (ngOnChanges sample_factory (change None (Some (Geo 1))) sample_world))
       = [(0, [2]), (0, [2, 1])]"
proof -
  note sw = sample_world_facts and lw = loaded_world_facts
  have pa: "payload_of (change (Some (Geo 1)) (Some (Geo 2))) = Some (Geo 2)"
    and pb: "payload_of (change None (Some (Geo 1))) = Some (Geo 1)"
    by (simp_all add: sample_change_facts)
  have fa: "sample_factory (Geo 2) None (onEachFeature loaded_world) = Some [((2, 2), (3, 3))]"
    by (simp only: lw(5) sample_factory_facts(3))
  have fb: "sample_factory (Geo 1) None (onEachFeature sample_world) = Some [((1, 1), (2, 2))]"
    by (simp only: sw(5) sample_factory_facts(2))
  have ra: "1 \<in> set (registry loaded_world 0)"
    by (simp add: lw(10))
  note ta = remove_before_add [where createGeojson = sample_factory and old = 1,
    OF pa lw(1) lw(2) fa, THEN conjunct1, rule_format, OF conjI, OF lw(6) ra]
  note tb = remove_before_add [where createGeojson = sample_factory and old = 1,
    OF pb sw(1) sw(2) fb, THEN conjunct2, rule_format, OF sw(6)]
  have 1: "frames (result_state
         (ngOnChanges sample_factory (change (Some (Geo 1)) (Some (Geo 2))) loaded_world))
       = [(0, [2]), (0, [2, 1]), (0, [2]), (0, [2, 4]), (0, [2, 4, 3])]"
    using ta [THEN conjunct2, THEN conjunct1]
    by (simp add: lw(9,10) loaded_world_logs)
  have 2: "calls (result_state
         (ngOnChanges sample_factory (change (Some (Geo 1)) (Some (Geo 2))) loaded_world))
       = [CreateGeojson (Geo 1) None None, Next 1, NewFeatureGroup 2, AddLayer 0 2,
          GroupAddLayer 2 1, RemoveLayer 0 1, CreateGeojson (Geo 2) None None, Next 3,
          NewFeatureGroup 4, AddLayer 0 4, GroupAddLayer 4 3]"
    using ta [THEN conjunct1]
    by (simp add: lw(5,9) loaded_world_logs)
  have 3: "frames (result_state
         (ngOnChanges sample_factory (change None (Some (Geo 1))) sample_world))
       = [(0, [2]), (0, [2, 1])]"
    using tb [THEN conjunct2]
    by (simp add: sample_world_logs)
  show ?thesis
    using pa pb fa fb ra lw(1,2,6) sw(1,2,6) 1 2 3 by simp
qed

section \<open>Failures of the collaborators\<close>

lemma filter_removeAll: "filter P (removeAll x xs) = removeAll x (filter P xs)"
  by (induction xs) auto

lemma loaded_world_layers: "layers_on loaded_world 0 = [1]"
  "emitted (geojsonCharged loaded_world) = [1]"
  by (simp_all add: loaded_world_eq layers_on_def registry_def)

lemma unbound_world_facts:
  "svc_map unbound_world = None" "this_map unbound_world = None"
  "currentGeojson unbound_world = None" "onEachFeature unbound_world = None"
  "next_ref unbound_world = 0" "calls unbound_world = []"
  "emitted (geojsonCharged unbound_world) = []"
  "\<not> isStopped (geojsonCharged unbound_world)"
  by (simp_all add: unbound_world_def constructed_def)


text \<open>
  Claim C10. When the factory throws and a previous layer existed, the exception leaves
  \<open>ngOnChanges\<close> after the previous layer has been removed from the map and before
  anything is emitted: the calls made are the removal and the factory call, the old layer
  is no longer registered on the map, the channel is as it was, and the component still
  holds the old layer as its current layer. The refresh is not atomic.
\<close>

theorem failed_factory_not_atomic:
  assumes p: "payload_of chg = Some gj" and b: "bound s m" and c: "current_ok s"
    and o: "currentGeojson s = Some old"
    and f: "createGeojson gj None (onEachFeature s) = None"
  shows "thrown (ngOnChanges createGeojson chg s) = Some FactoryError
    \<and> calls (result_state (ngOnChanges createGeojson chg s))
        = calls s @ [RemoveLayer m old, CreateGeojson gj None (onEachFeature s)]
    \<and> registry (result_state (ngOnChanges createGeojson chg s)) m
        = removeAll old (registry s m)
    \<and> layers_on (result_state (ngOnChanges createGeojson chg s)) m
        = removeAll old (layers_on s m)
    \<and> geojsonCharged (result_state (ngOnChanges createGeojson chg s)) = geojsonCharged s
    \<and> currentGeojson (result_state (ngOnChanges createGeojson chg s)) = Some old"
proof -
  from b obtain reg vp where h: "svc_map s = Some m" "heap s m = Some (MapObj reg vp)"
    "m < next_ref s" "\<forall>r\<in>set reg. r < next_ref s" "registry s m = reg" "viewport s m = Some vp"
    by (rule bound_obtain)
  from c o obtain fo where l: "heap s old = Some (LayerObj fo)"
    by (rule current_ok_obtain)
  from p obtain c' where g: "geojson chg = Some c'" "currentValue c' = Some gj"
    by (auto simp: payload_of_def split: option.splits)
  define t where "t = s\<lparr>heap := (heap s)(m \<mapsto> MapObj (removeAll old reg) vp),
       calls := calls s @ [RemoveLayer m old, CreateGeojson gj None (onEachFeature s)],
       frames := frames s @ (if old \<in> set reg then [(m, removeAll old reg)] else [])\<rparr>"
  have i: "(heap s)(m \<mapsto> MapObj reg vp) = heap s"
    using h(2) by (rule fun_upd_idem)
  have n: "ngOnChanges createGeojson chg s = Thrown FactoryError t"
    using g h l o f
    by (simp add: ngOnChanges_def remove_current_def map_removeLayer_def unregister_def
      set_group_map_def children_of_def loadGeojson_def Let_def t_def i)
  have k: "is_layer (heap t r) = is_layer (heap s r)" for r
    using h(2) by (simp add: t_def)
  have "layers_on t m = filter (\<lambda>r. is_layer (heap s r)) (removeAll old reg)"
    by (simp add: layers_on_def k) (simp add: t_def registry_def)
  then have lo: "layers_on t m = removeAll old (layers_on s m)"
    by (simp add: filter_removeAll layers_on_def h(5))
  have rg: "registry t m = removeAll old (registry s m)"
    by (simp add: t_def registry_def h(5) [symmetric])
  show ?thesis
    by (simp add: n lo rg) (simp add: t_def o)
qed

theorem failed_factory_not_atomic_witness:
  "payload_of (change (Some (Geo 1)) (Some (Geo 99))) = Some (Geo 99)
   \<and> bound loaded_world 0 \<and> current_ok loaded_world
   \<and> currentGeojson loaded_world = Some 1
   \<and> sample_factory (Geo 99) None (onEachFeature loaded_world) = None
   \<and> thrown (ngOnChanges sample_factory (change (Some (Geo 1)) (Some (Geo 99))) loaded_world)
       = Some FactoryError
   \<and> layers_on (result_state
         (ngOnChanges sample_factory (change (Some (Geo 1)) (Some (Geo 99))) loaded_world)) 0
       = []
   \<and> emitted (geojsonCharged (result_state
         (ngOnChanges sample_factory (change (Some (Geo 1)) (Some (Geo 99))) loaded_world)))
       = [1]"
proof -
  note lw = loaded_world_facts
  have p: "payload_of (change (Some (Geo 1)) (Some (Geo 99))) = Some (Geo 99)"
    by (simp add: sample_change_facts)
  have f: "sample_factory (Geo 99) None (onEachFeature loaded_world) = None"
    by (simp only: lw(5) sample_factory_facts(4))
  note th = failed_factory_not_atomic [where createGeojson = sample_factory,
    OF p lw(1) lw(2) lw(6) f]
  have 1: "thrown (ngOnChanges sample_factory (change (Some (Geo 1)) (Some (Geo 99)))
             loaded_world) = Some FactoryError"
    using th [THEN conjunct1] .
  have 2: "layers_on (result_state
         (ngOnChanges sample_factory (change (Some (Geo 1)) (Some (Geo 99))) loaded_world)) 0
       = []"
    using th [THEN conjunct2, THEN conjunct2, THEN conjunct2, THEN conjunct1]
    by (simp add: loaded_world_layers)
  have 3: "emitted (geojsonCharged (result_state
         (ngOnChanges sample_factory (change (Some (Geo 1)) (Some (Geo 99))) loaded_world)))
       = [1]"
    using th [THEN conjunct2, THEN conjunct2, THEN conjunct2, THEN conjunct2, THEN conjunct1]
    by (simp add: loaded_world_layers)
  show ?thesis
    using p f lw(1,2,6) 1 2 3 by simp
qed

text \<open>
  Claim C3 says that a refresh invoked before the map is available is skipped without
  throwing, without emission and without change of state. In a world where the service
  holds no map and the component is not initialised, the refresh for a first payload
  throws a \<open>TypeError\<close>, after it has emitted the new layer and made it the current
  layer.
\<close>

theorem refresh_before_map_not_skipped:
  "svc_map unbound_world = None \<and> this_map unbound_world = None
   \<and> thrown (ngOnChanges sample_factory (change None (Some (Geo 1))) unbound_world)
       = Some TypeError
   \<and> emitted (geojsonCharged (result_state
        (ngOnChanges sample_factory (change None (Some (Geo 1))) unbound_world))) = [0]
   \<and> currentGeojson (result_state
        (ngOnChanges sample_factory (change None (Some (Geo 1))) unbound_world)) = Some 0
   \<and> result_state (ngOnChanges sample_factory (change None (Some (Geo 1))) unbound_world)
       \<noteq> unbound_world"
proof -
  have "currentGeojson (result_state
        (ngOnChanges sample_factory (change None (Some (Geo 1))) unbound_world)) = Some 0"
    by (simp add: ngOnChanges_def change_def unbound_world_def constructed_def
      remove_current_def loadGeojson_def sample_factory_def Let_def subject_next_def)
  then have "result_state (ngOnChanges sample_factory (change None (Some (Geo 1))) unbound_world)
       \<noteq> unbound_world"
    by (auto simp: unbound_world_facts)
  then show ?thesis
    by (simp add: unbound_world_facts)
      (simp add: ngOnChanges_def change_def unbound_world_def constructed_def
        remove_current_def loadGeojson_def sample_factory_def Let_def subject_next_def)
qed

text \<open>
  Claim C3, as amended. A refresh invoked with a payload while the service holds no map
  is not skipped: it throws. With a previous layer it throws a \<open>TypeError\<close> at the
  removal, the state unchanged. With no previous layer the factory is called; if it
  returns, the new layer becomes the current layer and is pushed on the channel, a new
  group is stored in the service, and a \<open>TypeError\<close> is thrown at the attachment of the
  group. No operation is performed on any map.
\<close>

theorem refresh_without_map_throws:
  assumes p: "payload_of chg = Some gj" and u: "svc_map s = None"
  shows "ngOnChanges createGeojson chg s =
    (case currentGeojson s of
       Some old \<Rightarrow> Thrown TypeError s
     | None \<Rightarrow>
         (case createGeojson gj None (onEachFeature s) of
            None \<Rightarrow>
              Thrown FactoryError
                (s\<lparr>calls := calls s @ [CreateGeojson gj None (onEachFeature s)]\<rparr>)
          | Some fs \<Rightarrow>
              Thrown TypeError
                (s\<lparr>currentGeojson := Some (next_ref s),
                   geojsonCharged := subject_next (next_ref s) (geojsonCharged s),
                   svc_layerGroup := Some (Suc (next_ref s)),
                   heap := (heap s)(next_ref s \<mapsto> LayerObj fs,
                                    Suc (next_ref s) \<mapsto> GroupObj [] None),
                   next_ref := Suc (Suc (next_ref s)),
                   calls := calls s @ [CreateGeojson gj None (onEachFeature s),
                                       Next (next_ref s),
                                       NewFeatureGroup (Suc (next_ref s))]\<rparr>)))"
proof -
  from p obtain c' where g: "geojson chg = Some c'" "currentValue c' = Some gj"
    by (auto simp: payload_of_def split: option.splits)
  show ?thesis
    using g u
    by (simp add: ngOnChanges_def remove_current_def loadGeojson_def Let_def
      split: option.splits)
qed

theorem refresh_without_map_throws_witness:
  "payload_of (change None (Some (Geo 1))) = Some (Geo 1) \<and> svc_map unbound_world = None
   \<and> thrown (ngOnChanges sample_factory (change None (Some (Geo 1))) unbound_world)
       = Some TypeError
   \<and> calls (result_state
        (ngOnChanges sample_factory (change None (Some (Geo 1))) unbound_world))
       = [CreateGeojson (Geo 1) None None, Next 0, NewFeatureGroup 1]"
proof -
  have p: "payload_of (change None (Some (Geo 1))) = Some (Geo 1)"
    by (simp add: sample_change_facts)
  note u = unbound_world_facts
  note th = refresh_without_map_throws [where createGeojson = sample_factory, OF p u(1)]
  have f: "sample_factory (Geo 1) None None = Some [((1, 1), (2, 2))]"
    by (rule sample_factory_facts(2))
  have e: "ngOnChanges sample_factory (change None (Some (Geo 1))) unbound_world
       = Thrown TypeError
          (unbound_world
             \<lparr>currentGeojson := Some 0,
              geojsonCharged := subject_next 0 (geojsonCharged unbound_world),
              svc_layerGroup := Some (Suc 0),
              heap := (heap unbound_world)(0 \<mapsto> LayerObj [((1, 1), (2, 2))],
                                           Suc 0 \<mapsto> GroupObj [] None),
              next_ref := Suc (Suc 0),
              calls := [CreateGeojson (Geo 1) None None, Next 0, NewFeatureGroup (Suc 0)]\<rparr>)"
    using th by (simp only: u option.case f) simp
  have 1: "thrown (ngOnChanges sample_factory (change None (Some (Geo 1))) unbound_world)
       = Some TypeError"
    by (simp only: e thrown.simps)
  have 2: "calls (result_state
        (ngOnChanges sample_factory (change None (Some (Geo 1))) unbound_world))
       = [CreateGeojson (Geo 1) None None, Next 0, NewFeatureGroup 1]"
    by (simp only: e result_state.simps) simp
  show ?thesis
    using p u(1) 1 2 by simp
qed

section \<open>What a refresh does in any state\<close>

lemma leaflet_only_fields:
  assumes "leaflet_only s t"
  shows "calls t = calls s" "console t = console s" "currentGeojson t = currentGeojson s"
    "svc_layerGroup t = svc_layerGroup s" "geojsonCharged t = geojsonCharged s"
    "next_ref t = next_ref s" "onEachFeature t = onEachFeature s" "svc_map t = svc_map s"
    "this_map t = this_map s" "zoomOnLayer t = zoomOnLayer s" "asCluste t = asCluste s"
proof -
  from assms have e: "t = s\<lparr>heap := heap t, frames := frames t\<rparr>"
    by (simp add: leaflet_only_def)
  show "calls t = calls s" by (subst e) simp
  show "console t = console s" by (subst e) simp
  show "currentGeojson t = currentGeojson s" by (subst e) simp
  show "svc_layerGroup t = svc_layerGroup s" by (subst e) simp
  show "geojsonCharged t = geojsonCharged s" by (subst e) simp
  show "next_ref t = next_ref s" by (subst e) simp
  show "onEachFeature t = onEachFeature s" by (subst e) simp
  show "svc_map t = svc_map s" by (subst e) simp
  show "this_map t = this_map s" by (subst e) simp
  show "zoomOnLayer t = zoomOnLayer s" by (subst e) simp
  show "asCluste t = asCluste s" by (subst e) simp
qed

lemma leaflet_only_layer:
  "leaflet_only s t \<Longrightarrow> heap s r = Some (LayerObj fs) \<Longrightarrow> heap t r = Some (LayerObj fs)"
  by (simp add: leaflet_only_def)

lemma remove_current_fields:
  "geojsonCharged (result_state (remove_current s)) = geojsonCharged s"
  "next_ref (result_state (remove_current s)) = next_ref s"
  "onEachFeature (result_state (remove_current s)) = onEachFeature s"
proof -
  have "geojsonCharged (result_state (remove_current s)) = geojsonCharged s
      \<and> next_ref (result_state (remove_current s)) = next_ref s
      \<and> onEachFeature (result_state (remove_current s)) = onEachFeature s"
  proof (cases "currentGeojson s")
    case None
    then show ?thesis by (simp add: remove_current_def)
  next
    case (Some old)
    show ?thesis
    proof (cases "svc_map s")
      case None
      with Some show ?thesis by (simp add: remove_current_def)
    next
      case m: (Some m)
      define s0 where "s0 = s\<lparr>calls := calls s @ [RemoveLayer m old]\<rparr>"
      have "leaflet_only s0 (result_state (map_removeLayer m old s0))"
        by (rule leaflet_only_map_removeLayer)
      from leaflet_only_fields(5,6,7) [OF this] Some m show ?thesis
        by (simp add: remove_current_def s0_def)
    qed
  qed
  then show "geojsonCharged (result_state (remove_current s)) = geojsonCharged s"
    "next_ref (result_state (remove_current s)) = next_ref s"
    "onEachFeature (result_state (remove_current s)) = onEachFeature s"
    by simp_all
qed

lemma loadGeojson_result:
  assumes f: "f gj None (onEachFeature s) = Some fs"
  shows "geojsonCharged (result_state (loadGeojson f gj s))
           = subject_next (next_ref s) (geojsonCharged s)"
    and "currentGeojson (result_state (loadGeojson f gj s)) = Some (next_ref s)"
    and "heap (result_state (loadGeojson f gj s)) (next_ref s) = Some (LayerObj fs)"
proof -
  define l where "l = next_ref s"
  define g where "g = Suc l"
  define s3 where "s3 = s\<lparr>currentGeojson := Some l,
      geojsonCharged := subject_next l (geojsonCharged s),
      heap := (heap s)(l \<mapsto> LayerObj fs, g \<mapsto> GroupObj [] None),
      next_ref := Suc g, svc_layerGroup := Some g,
      calls := calls s @ [CreateGeojson gj None (onEachFeature s), Next l, NewFeatureGroup g]\<rparr>"
  have s3: "geojsonCharged s3 = subject_next l (geojsonCharged s)"
    "currentGeojson s3 = Some l" "heap s3 l = Some (LayerObj fs)"
    by (simp_all add: s3_def g_def)
  have "geojsonCharged (result_state (loadGeojson f gj s)) = subject_next l (geojsonCharged s)
      \<and> currentGeojson (result_state (loadGeojson f gj s)) = Some l
      \<and> heap (result_state (loadGeojson f gj s)) l = Some (LayerObj fs)"
  proof (cases "svc_map s")
    case None
    then have "loadGeojson f gj s = Thrown TypeError s3"
      using f by (simp add: loadGeojson_def Let_def s3_def l_def g_def)
    with s3 show ?thesis by simp
  next
    case (Some m)
    define s3c where "s3c = s3\<lparr>calls := calls s3 @ [AddLayer m g]\<rparr>"
    have e: "loadGeojson f gj s =
        and_then (map_addLayer m g s3c)
          (\<lambda>s4. group_addLayer g l (s4\<lparr>calls := calls s4 @ [GroupAddLayer g l]\<rparr>))"
      using f Some by (simp add: loadGeojson_def Let_def s3_def s3c_def l_def g_def)
    have a: "leaflet_only s3c (result_state (map_addLayer m g s3c))"
      by (rule leaflet_only_map_addLayer)
    have c: "geojsonCharged s3c = subject_next l (geojsonCharged s)"
      "currentGeojson s3c = Some l" "heap s3c l = Some (LayerObj fs)"
      using s3 by (simp_all add: s3c_def)
    show ?thesis
    proof (cases "map_addLayer m g s3c")
      case (Thrown x t)
      with a c leaflet_only_fields(3,5) [OF a] leaflet_only_layer [OF a c(3)]
      show ?thesis by (simp add: e)
    next
      case (Done s4)
      define s4c where "s4c = s4\<lparr>calls := calls s4 @ [GroupAddLayer g l]\<rparr>"
      have a4: "leaflet_only s3c s4" using a Done by simp
      have c4: "geojsonCharged s4c = subject_next l (geojsonCharged s)"
        "currentGeojson s4c = Some l" "heap s4c l = Some (LayerObj fs)"
        using c leaflet_only_fields(3,5) [OF a4] leaflet_only_layer [OF a4 c(3)]
        by (simp_all add: s4c_def)
      have b: "leaflet_only s4c (result_state (group_addLayer g l s4c))"
        by (rule leaflet_only_group_addLayer)
      have "loadGeojson f gj s = group_addLayer g l s4c"
        by (simp add: e Done s4c_def)
      with c4 leaflet_only_fields(3,5) [OF b] leaflet_only_layer [OF b c4(3)]
      show ?thesis by simp
    qed
  qed
  then show "geojsonCharged (result_state (loadGeojson f gj s))
           = subject_next (next_ref s) (geojsonCharged s)"
    and "currentGeojson (result_state (loadGeojson f gj s)) = Some (next_ref s)"
    and "heap (result_state (loadGeojson f gj s)) (next_ref s) = Some (LayerObj fs)"
    by (simp_all add: l_def)
qed

lemma loadGeojson_thrown:
  "f gj None (onEachFeature s) = None \<Longrightarrow>
     loadGeojson f gj s
       = Thrown FactoryError (s\<lparr>calls := calls s @ [CreateGeojson gj None (onEachFeature s)]\<rparr>)"
  by (simp add: loadGeojson_def Let_def)

lemma subject_next_flags:
  "isStopped (subject_next v sub) = isStopped sub"
  "observers (subject_next v sub) = observers sub"
  by (simp_all add: subject_next_def)

lemma loadGeojson_flags:
  "isStopped (geojsonCharged (result_state (loadGeojson f gj s))) = isStopped (geojsonCharged s)"
  "observers (geojsonCharged (result_state (loadGeojson f gj s))) = observers (geojsonCharged s)"
proof -
  have "isStopped (geojsonCharged (result_state (loadGeojson f gj s)))
          = isStopped (geojsonCharged s)
      \<and> observers (geojsonCharged (result_state (loadGeojson f gj s)))
          = observers (geojsonCharged s)"
  proof (cases "f gj None (onEachFeature s)")
    case None
    then show ?thesis by (simp add: loadGeojson_thrown)
  next
    case (Some fs)
    then show ?thesis by (simp add: loadGeojson_result(1) [where f = f] subject_next_flags)
  qed
  then show
    "isStopped (geojsonCharged (result_state (loadGeojson f gj s))) = isStopped (geojsonCharged s)"
    "observers (geojsonCharged (result_state (loadGeojson f gj s))) = observers (geojsonCharged s)"
    by simp_all
qed

lemma reframe_channel:
  "geojsonCharged (result_state (reframe s)) = geojsonCharged s"
  by (rule view_only_fields(5) [OF view_only_reframe])

lemma ngOnChanges_flags:
  "isStopped (geojsonCharged (result_state (ngOnChanges f chg s))) = isStopped (geojsonCharged s)
   \<and> observers (geojsonCharged (result_state (ngOnChanges f chg s)))
       = observers (geojsonCharged s)"
proof (cases "payload_of chg")
  case None
  then show ?thesis by (simp add: ngOnChanges_def payload_of_def split: option.splits)
next
  case (Some gj)
  then obtain c' where g: "geojson chg = Some c'" "currentValue c' = Some gj"
    by (auto simp: payload_of_def split: option.splits)
  define K where "K = (\<lambda>s2. if previousValue c' \<noteq> None \<and> zoomOnLayer s2 then reframe s2 else Done s2)"
  have k: "geojsonCharged (result_state (K t)) = geojsonCharged t" for t
    by (simp add: K_def reframe_channel)
  have l: "isStopped (geojsonCharged (result_state (and_then (loadGeojson f gj t) K)))
             = isStopped (geojsonCharged t)
         \<and> observers (geojsonCharged (result_state (and_then (loadGeojson f gj t) K)))
             = observers (geojsonCharged t)" for t
    using loadGeojson_flags [of f gj t]
    by (cases "loadGeojson f gj t") (simp_all add: k)
  have e: "ngOnChanges f chg s = and_then (remove_current s) (\<lambda>s1. and_then (loadGeojson f gj s1) K)"
    using g by (simp add: ngOnChanges_def K_def)
  show ?thesis
    using remove_current_fields(1) [of s]
    by (cases "remove_current s") (simp_all add: e l)
qed


section \<open>The channel\<close>

text \<open>
  Claim C5 says that destroying the component closes the channel, once, after which
  subscribers receive nothing and emitting is a no-op. The class has no destruction
  hook: after a first payload and the destruction of the component, the channel is not
  stopped, its subscriber is still registered, and a value pushed on the subject is
  still delivered to it.
\<close>

theorem channel_open_after_destroy:
  "\<not> isStopped (geojsonCharged (result_state
        (run sample_factory [OnChanges (change None (Some (Geo 1))), OnDestroy] watched_world)))
   \<and> observers (geojsonCharged (result_state
        (run sample_factory [OnChanges (change None (Some (Geo 1))), OnDestroy] watched_world)))
       = [7]
   \<and> inbox (subject_next 9 (geojsonCharged (result_state
        (run sample_factory [OnChanges (change None (Some (Geo 1))), OnDestroy] watched_world))))
       = [(7, 1), (7, 9)]"
  by (simp add: dispatch_def ngOnChanges_def change_def watched_world_def
    sample_world_def constructed_def remove_current_def
    loadGeojson_def sample_factory_def Let_def map_addLayer_def register_def set_group_map_def
    children_of_def group_addLayer_def subject_next_def)


text \<open>
  Claim C5, as amended. The component closes the channel on no path: destroying it runs
  none of its code, and no lifecycle hook of the component, whether it returns or throws,
  stops the subject or drops its subscribers. A channel that is open stays open.
\<close>

theorem channel_never_closed:
  "isStopped (geojsonCharged (result_state (dispatch createGeojson h s)))
     = isStopped (geojsonCharged s)
   \<and> observers (geojsonCharged (result_state (dispatch createGeojson h s)))
     = observers (geojsonCharged s)
   \<and> dispatch createGeojson OnDestroy s = Done s"
  using ngOnChanges_flags [of createGeojson _ s]
  by (cases h) (simp_all add: dispatch_def ngOnInit_def)


text \<open>
  Claim C7. A refresh that returns normally, on an open channel, makes exactly one
  emission: the emissions of the channel grow by one value, each subscriber receives
  that value once, and the value is the layer the factory returned for the payload, which
  is also the current layer of the component afterwards.
\<close>

theorem refresh_emits_built_layer:
  assumes p: "payload_of chg = Some gj" and d: "ngOnChanges createGeojson chg s = Done s'"
    and o: "\<not> isStopped (geojsonCharged s)"
  shows "createGeojson gj None (onEachFeature s) \<noteq> None
    \<and> heap s' (next_ref s) = map_option LayerObj (createGeojson gj None (onEachFeature s))
    \<and> currentGeojson s' = Some (next_ref s)
    \<and> emitted (geojsonCharged s') = emitted (geojsonCharged s) @ [next_ref s]
    \<and> inbox (geojsonCharged s')
        = inbox (geojsonCharged s) @ map (\<lambda>ob. (ob, next_ref s)) (observers (geojsonCharged s))"
proof -
  from p obtain c' where g: "geojson chg = Some c'" "currentValue c' = Some gj"
    by (auto simp: payload_of_def split: option.splits)
  define K where "K = (\<lambda>s2. if previousValue c' \<noteq> None \<and> zoomOnLayer s2 then reframe s2 else Done s2)"
  have e: "ngOnChanges createGeojson chg s
             = and_then (remove_current s) (\<lambda>s1. and_then (loadGeojson createGeojson gj s1) K)"
    using g by (simp add: ngOnChanges_def K_def)
  from d e obtain s1 where r1: "remove_current s = Done s1"
    by (cases "remove_current s") simp_all
  with d e obtain s2 where r2: "loadGeojson createGeojson gj s1 = Done s2"
    by (cases "loadGeojson createGeojson gj s1") simp_all
  from d e r1 r2 have r3: "K s2 = Done s'" by simp
  have f1: "geojsonCharged s1 = geojsonCharged s" "next_ref s1 = next_ref s"
    "onEachFeature s1 = onEachFeature s"
    using remove_current_fields [of s] by (simp_all add: r1)
  have "createGeojson gj None (onEachFeature s1) \<noteq> None"
    using r2 loadGeojson_thrown [of createGeojson gj s1] by auto
  then obtain fs where f: "createGeojson gj None (onEachFeature s1) = Some fs" by auto
  note lr = loadGeojson_result [where f = createGeojson, OF f]
  have f2: "geojsonCharged s2 = subject_next (next_ref s) (geojsonCharged s)"
    "currentGeojson s2 = Some (next_ref s)" "heap s2 (next_ref s) = Some (LayerObj fs)"
    using lr by (simp_all add: r2 f1)
  have v: "view_only s2 s'"
    using r3 view_only_reframe [of s2]
    by (auto simp: K_def view_only_refl split: if_splits)
  have f3: "geojsonCharged s' = subject_next (next_ref s) (geojsonCharged s)"
    "currentGeojson s' = Some (next_ref s)" "heap s' (next_ref s) = Some (LayerObj fs)"
    using view_only_fields(3,5) [OF v] view_only_heap(4) [OF v f2(3)] f2 by simp_all
  show ?thesis
    using f f1(3) o by (simp add: f3 subject_next_def)
qed

theorem refresh_emits_built_layer_witness:
  "payload_of (change (Some (Geo 1)) (Some (Geo 2))) = Some (Geo 2)
   \<and> ngOnChanges sample_factory (change (Some (Geo 1)) (Some (Geo 2))) loaded_world
       = Done (result_state
           (ngOnChanges sample_factory (change (Some (Geo 1)) (Some (Geo 2))) loaded_world))
   \<and> \<not> isStopped (geojsonCharged loaded_world)
   \<and> emitted (geojsonCharged (result_state
         (ngOnChanges sample_factory (change (Some (Geo 1)) (Some (Geo 2))) loaded_world)))
       = [1, 3]
   \<and> currentGeojson (result_state
         (ngOnChanges sample_factory (change (Some (Geo 1)) (Some (Geo 2))) loaded_world))
       = Some 3
   \<and> heap (result_state
         (ngOnChanges sample_factory (change (Some (Geo 1)) (Some (Geo 2))) loaded_world)) 3
       = Some (LayerObj [((2, 2), (3, 3))])"
proof -
  note lw = loaded_world_facts
  have p: "payload_of (change (Some (Geo 1)) (Some (Geo 2))) = Some (Geo 2)"
    by (simp add: sample_change_facts)
  have f: "sample_factory (Geo 2) None (onEachFeature loaded_world) = Some [((2, 2), (3, 3))]"
    by (simp only: lw(5) sample_factory_facts(3))
  have "thrown (ngOnChanges sample_factory (change (Some (Geo 1)) (Some (Geo 2))) loaded_world)
          = None"
    using p lw(1) lw(2) f by (rule ngOnChanges_view_only(1))
  then have d: "ngOnChanges sample_factory (change (Some (Geo 1)) (Some (Geo 2))) loaded_world
       = Done (result_state
           (ngOnChanges sample_factory (change (Some (Geo 1)) (Some (Geo 2))) loaded_world))"
    by (cases "ngOnChanges sample_factory (change (Some (Geo 1)) (Some (Geo 2))) loaded_world")
      simp_all
  note th = refresh_emits_built_layer [where createGeojson = sample_factory, OF p d lw(8)]
  have 1: "emitted (geojsonCharged (result_state
         (ngOnChanges sample_factory (change (Some (Geo 1)) (Some (Geo 2))) loaded_world)))
       = [1, 3]"
    using th [THEN conjunct2, THEN conjunct2, THEN conjunct2, THEN conjunct1]
    by (simp add: lw(9) loaded_world_layers)
  have 2: "currentGeojson (result_state
         (ngOnChanges sample_factory (change (Some (Geo 1)) (Some (Geo 2))) loaded_world))
       = Some 3"
    using th [THEN conjunct2, THEN conjunct2, THEN conjunct1]
    by (simp add: lw(9))
  have 3: "heap (result_state
         (ngOnChanges sample_factory (change (Some (Geo 1)) (Some (Geo 2))) loaded_world)) 3
       = Some (LayerObj [((2, 2), (3, 3))])"
    using th [THEN conjunct2, THEN conjunct1]
    by (simp add: lw(9) f)
  from p d lw(8) 1 2 3 show ?thesis by blast
qed

section \<open>Invariants of a refresh\<close>

lemma tracked_current_ok:
  assumes "tracked s m"
  shows "current_ok s"
proof (cases "currentGeojson s")
  case None
  then show ?thesis by (simp add: current_ok_def)
next
  case (Some l)
  with assms have "l \<in> set (layers_on s m)" by (simp add: tracked_def)
  then have "is_layer (heap s l)" by (simp add: layers_on_def)
  with Some show ?thesis by (simp add: current_ok_def)
qed

lemma view_only_bound:
  assumes v: "view_only s t" and b: "bound s m"
  shows "bound t m"
proof -
  from v have "heap t m = heap s m \<or>
      (\<exists>reg vp vp'. heap s m = Some (MapObj reg vp) \<and> heap t m = Some (MapObj reg vp'))"
    by (simp add: view_only_def)
  with b have "viewport t m \<noteq> None"
    by (auto simp: bound_def viewport_def)
  with b show ?thesis
    by (simp add: bound_def view_only_fields(6,8) [OF v] view_only_heap(1) [OF v])
qed

lemma refreshed_kinds:
  assumes b: "bound s m" and r: "r \<in> set (registry s m)"
  shows "is_layer (heap (refreshed gj fs m s) r) = is_layer (heap s r)"
    and "is_group (heap (refreshed gj fs m s) r) = is_group (heap s r)"
proof -
  from b obtain reg vp where h: "svc_map s = Some m" "heap s m = Some (MapObj reg vp)"
    "m < next_ref s" "\<forall>r\<in>set reg. r < next_ref s" "registry s m = reg" "viewport s m = Some vp"
    by (rule bound_obtain)
  from r h have lt: "r < next_ref s" by simp
  show "is_layer (heap (refreshed gj fs m s) r) = is_layer (heap s r)"
    using lt h(2) by (cases "r = m") (simp_all add: refreshed_heap(3,4) [OF b])
  show "is_group (heap (refreshed gj fs m s) r) = is_group (heap s r)"
    using lt h(2) by (cases "r = m") (simp_all add: refreshed_heap(3,4) [OF b])
qed

lemma filter_registry_refreshed:
  assumes b: "bound s m" and x: "set xs \<subseteq> set (registry s m)"
  shows "filter (\<lambda>r. is_layer (heap (refreshed gj fs m s) r)) xs
           = filter (\<lambda>r. is_layer (heap s r)) xs"
    and "filter (\<lambda>r. is_group (heap (refreshed gj fs m s) r)) xs
           = filter (\<lambda>r. is_group (heap s r)) xs"
  using x by (auto intro!: filter_cong simp: refreshed_kinds [OF b])

lemma refreshed_on:
  assumes b: "bound s m" and t: "tracked s m"
  shows "layers_on (refreshed gj fs m s) m = [next_ref s]"
    and "groups_on (refreshed gj fs m s) m = groups_on s m @ [Suc (next_ref s)]"
proof -
  note k = refreshed_heap(1,2) [OF b, of gj fs]
  show "layers_on (refreshed gj fs m s) m = [next_ref s]"
  proof (cases "currentGeojson s")
    case None
    with t have "filter (\<lambda>r. is_layer (heap s r)) (registry s m) = []"
      by (simp add: tracked_def layers_on_def)
    with None show ?thesis
      by (simp add: layers_on_def refreshed_registry k filter_registry_refreshed(1) [OF b])
  next
    case (Some old)
    with t have "filter (\<lambda>r. is_layer (heap s r)) (registry s m) = [old]"
      by (simp add: tracked_def layers_on_def)
    then have "filter (\<lambda>r. is_layer (heap s r)) (removeAll old (registry s m)) = []"
      by (simp add: filter_removeAll)
    with Some show ?thesis
      by (simp add: layers_on_def refreshed_registry k filter_registry_refreshed(1) [OF b])
  qed
  show "groups_on (refreshed gj fs m s) m = groups_on s m @ [Suc (next_ref s)]"
  proof (cases "currentGeojson s")
    case None
    then show ?thesis
      by (simp add: groups_on_def refreshed_registry k filter_registry_refreshed(2) [OF b])
  next
    case (Some old)
    with tracked_current_ok [OF t] have "\<not> is_group (heap s old)"
      by (cases "heap s old" rule: is_layer.cases) (simp_all add: current_ok_def)
    then have "old \<notin> set (filter (\<lambda>r. is_group (heap s r)) (registry s m))"
      by simp
    then have "filter (\<lambda>r. is_group (heap s r)) (removeAll old (registry s m))
                 = filter (\<lambda>r. is_group (heap s r)) (registry s m)"
      by (simp only: filter_removeAll) (rule removeAll_id)
    with Some show ?thesis
      by (simp add: groups_on_def refreshed_registry k filter_registry_refreshed(2) [OF b])
  qed
qed

lemma refreshed_bound:
  assumes b: "bound s m"
  shows "bound (refreshed gj fs m s) m"
proof -
  from b obtain reg vp where h: "svc_map s = Some m" "heap s m = Some (MapObj reg vp)"
    "m < next_ref s" "\<forall>r\<in>set reg. r < next_ref s" "registry s m = reg" "viewport s m = Some vp"
    by (rule bound_obtain)
  have "\<forall>r\<in>set (registry (refreshed gj fs m s) m). r < Suc (Suc (next_ref s))"
    using h by (auto simp: refreshed_registry split: option.splits)
  then show ?thesis
    using h by (simp add: bound_def refreshed_fields refreshed_viewport [OF b])
qed

lemma builds_obtain:
  assumes "builds f cb h"
  obtains chg gj fs where "h = OnChanges chg" "payload_of chg = Some gj"
    "f gj None cb = Some fs" "hook_payload h = Some gj"
  using assms
  by (cases h) (auto simp: builds_def hook_payload_def split: option.splits)

lemma refresh_step:
  assumes b: "bound s m" and t: "tracked s m" and u: "builds f (onEachFeature s) h"
  shows "thrown (dispatch f h s) = None"
    and "bound (result_state (dispatch f h s)) m"
    and "tracked (result_state (dispatch f h s)) m"
    and "one_overlay (result_state (dispatch f h s)) m"
    and "built_from f (onEachFeature s) h (result_state (dispatch f h s))"
    and "onEachFeature (result_state (dispatch f h s)) = onEachFeature s"
    and "groups_on (result_state (dispatch f h s)) m = groups_on s m @ [Suc (next_ref s)]"
    and "svc_layerGroup (result_state (dispatch f h s)) = Some (Suc (next_ref s))"
    and "next_ref (result_state (dispatch f h s)) = Suc (Suc (next_ref s))"
proof -
  from u obtain chg gj fs where h: "h = OnChanges chg" and p: "payload_of chg = Some gj"
    and f: "f gj None (onEachFeature s) = Some fs" and hp: "hook_payload h = Some gj"
    by (rule builds_obtain)
  note c = tracked_current_ok [OF t]
  have d: "dispatch f h s = ngOnChanges f chg s"
    by (simp add: h dispatch_def)
  note v = ngOnChanges_view_only(2) [where f = f, OF p b c f]
  note vf = view_only_fields [OF v] and vh = view_only_heap [OF v] and vo = view_only_on [OF v]
  note rf = refreshed_fields [of gj fs m s] and ro = refreshed_on [OF b t, of gj fs]
    and rh = refreshed_heap(1,2) [OF b, of gj fs]
  show "thrown (dispatch f h s) = None"
    using p b c f by (simp add: d ngOnChanges_view_only(1))
  show "bound (result_state (dispatch f h s)) m"
    unfolding d by (rule view_only_bound [OF v refreshed_bound [OF b]])
  show "tracked (result_state (dispatch f h s)) m"
    unfolding d by (simp add: tracked_def vo vf(3) rf ro)
  show "one_overlay (result_state (dispatch f h s)) m"
    unfolding d
    by (simp add: one_overlay_def vo vf(3,4) rf ro vh(1) refreshed_registry vh(5) [OF rh(2)])
  show "built_from f (onEachFeature s) h (result_state (dispatch f h s))"
    unfolding d
    by (simp add: built_from_def hp f vf(3) rf vh(4) [OF rh(1)])
  show "onEachFeature (result_state (dispatch f h s)) = onEachFeature s"
    unfolding d by (simp add: vf(7) rf)
  show "groups_on (result_state (dispatch f h s)) m = groups_on s m @ [Suc (next_ref s)]"
    unfolding d by (simp add: vo ro)
  show "svc_layerGroup (result_state (dispatch f h s)) = Some (Suc (next_ref s))"
    unfolding d by (simp add: vf(4) rf)
  show "next_ref (result_state (dispatch f h s)) = Suc (Suc (next_ref s))"
    unfolding d by (simp add: vf(6) rf)
qed

lemma thrown_None_Done: "thrown r = None \<Longrightarrow> r = Done (result_state r)"
  by (cases r) simp_all

lemma take_shorter_prefix:
  assumes "take (Suc (length a)) xs = a @ [x]"
  shows "take (length a) xs = a"
proof -
  have "take (length a) xs = take (length a) (take (Suc (length a)) xs)"
    by (simp add: min_def)
  then show ?thesis by (simp add: assms)
qed

lemma run_refreshes:
  assumes "bound s m" and "tracked s m" and "\<forall>h\<in>set hs. builds f cb h"
    and "onEachFeature s = cb"
  shows "thrown (run f hs s) = None
    \<and> bound (result_state (run f hs s)) m
    \<and> tracked (result_state (run f hs s)) m
    \<and> onEachFeature (result_state (run f hs s)) = cb
    \<and> next_ref s \<le> next_ref (result_state (run f hs s))
    \<and> length (groups_on (result_state (run f hs s)) m) = length (groups_on s m) + length hs
    \<and> take (length (groups_on s m)) (groups_on (result_state (run f hs s)) m) = groups_on s m
    \<and> (hs \<noteq> [] \<longrightarrow>
         one_overlay (result_state (run f hs s)) m
         \<and> built_from f cb (last hs) (result_state (run f hs s))
         \<and> (case svc_layerGroup (result_state (run f hs s)) of
              None \<Rightarrow> False
            | Some g \<Rightarrow> next_ref s \<le> g))"
  using assms
proof (induction hs arbitrary: s)
  case Nil
  then show ?case by simp
next
  case (Cons h hs)
  from Cons.prems have u: "builds f (onEachFeature s) h" by simp
  note st = refresh_step [OF Cons.prems(1) Cons.prems(2) u]
  define s1 where "s1 = result_state (dispatch f h s)"
  have d: "dispatch f h s = Done s1"
    unfolding s1_def by (rule thrown_None_Done [OF st(1)])
  have r: "run f (h # hs) s = run f hs s1"
    by (simp add: d)
  have s1: "bound s1 m" "tracked s1 m" "onEachFeature s1 = cb"
    "groups_on s1 m = groups_on s m @ [Suc (next_ref s)]"
    "svc_layerGroup s1 = Some (Suc (next_ref s))" "next_ref s1 = Suc (Suc (next_ref s))"
    "one_overlay s1 m" "built_from f cb h s1"
    using st Cons.prems(4) by (simp_all add: s1_def)
  from Cons.prems have "\<forall>h\<in>set hs. builds f cb h" by simp
  note ih = Cons.IH [OF s1(1) s1(2) this s1(3)]
  show ?case
  proof (cases "hs = []")
    case True
    then show ?thesis
      using s1 by (simp add: d)
  next
    case False
    from ih have "take (Suc (length (groups_on s m))) (groups_on (result_state (run f hs s1)) m)
        = groups_on s m @ [Suc (next_ref s)]"
      by (simp add: s1(4))
    then have "take (length (groups_on s m)) (groups_on (result_state (run f hs s1)) m)
        = groups_on s m"
      by (rule take_shorter_prefix)
    with False ih show ?thesis
      unfolding r
      by (auto simp: s1(4,6) split: option.splits)
  qed
qed

section \<open>One overlay after each refresh\<close>

text \<open>
  Claim C1 says that after each refresh the map holds exactly one layer group. The
  component removes the previous layer from the map, never the previous group: after two
  payloads the map holds two groups, and the first group still lists the first layer as
  its child.
\<close>

theorem groups_pile_up:
  "thrown (run sample_factory
      [OnChanges (change None (Some (Geo 1))),
       OnChanges (change (Some (Geo 1)) (Some (Geo 2)))] sample_world) = None
   \<and> groups_on (result_state (run sample_factory
      [OnChanges (change None (Some (Geo 1))),
       OnChanges (change (Some (Geo 1)) (Some (Geo 2)))] sample_world)) 0 = [2, 4]
   \<and> registry (result_state (run sample_factory
      [OnChanges (change None (Some (Geo 1))),
       OnChanges (change (Some (Geo 1)) (Some (Geo 2)))] sample_world)) 0 = [2, 4, 3]
   \<and> heap (result_state (run sample_factory
      [OnChanges (change None (Some (Geo 1))),
       OnChanges (change (Some (Geo 1)) (Some (Geo 2)))] sample_world)) 2
      = Some (GroupObj [1] (Some 0))"
  by (simp add: dispatch_def ngOnChanges_def change_def
    sample_world_def constructed_def remove_current_def map_removeLayer_def unregister_def
    loadGeojson_def sample_factory_def Let_def map_addLayer_def register_def set_group_map_def
    children_of_def group_addLayer_def subject_next_def groups_on_def registry_def
    reframe_def try_fit_def)


text \<open>
  Claim C1, as amended. For every non-empty sequence of payload updates for which the
  factory returns a layer, started where the service holds the map and the only layer of
  the factory on the map is the current one, if any: every refresh returns normally, and
  afterwards the map holds exactly one layer of the factory, the one built from the most
  recent payload; it is the only child of the service's layer group, which is on the
  map and was created during the sequence. Earlier groups are not detached: the map
  holds one more group per refresh, after the groups it held before.
\<close>

theorem one_overlay_after_each_refresh:
  assumes b: "bound s m" and t: "tracked s m" and n: "hs \<noteq> []"
    and u: "\<forall>h\<in>set hs. builds createGeojson (onEachFeature s) h"
  shows "thrown (run createGeojson hs s) = None
    \<and> one_overlay (result_state (run createGeojson hs s)) m
    \<and> built_from createGeojson (onEachFeature s) (last hs)
        (result_state (run createGeojson hs s))
    \<and> (case svc_layerGroup (result_state (run createGeojson hs s)) of
         None \<Rightarrow> False
       | Some g \<Rightarrow> next_ref s \<le> g)
    \<and> length (groups_on (result_state (run createGeojson hs s)) m)
        = length (groups_on s m) + length hs
    \<and> take (length (groups_on s m)) (groups_on (result_state (run createGeojson hs s)) m)
        = groups_on s m"
  using run_refreshes [where f = createGeojson, OF b t u refl] n by simp

theorem one_overlay_after_each_refresh_witness:
  "bound sample_world 0 \<and> tracked sample_world 0
   \<and> builds sample_factory (onEachFeature sample_world) (OnChanges (change None (Some (Geo 1))))
   \<and> builds sample_factory (onEachFeature sample_world)
        (OnChanges (change (Some (Geo 1)) (Some (Geo 2))))
   \<and> thrown (run sample_factory
        [OnChanges (change None (Some (Geo 1))),
         OnChanges (change (Some (Geo 1)) (Some (Geo 2)))] sample_world) = None
   \<and> one_overlay (result_state (run sample_factory
        [OnChanges (change None (Some (Geo 1))),
         OnChanges (change (Some (Geo 1)) (Some (Geo 2)))] sample_world)) 0
   \<and> built_from sample_factory None (OnChanges (change (Some (Geo 1)) (Some (Geo 2))))
        (result_state (run sample_factory
          [OnChanges (change None (Some (Geo 1))),
           OnChanges (change (Some (Geo 1)) (Some (Geo 2)))] sample_world))
   \<and> length (groups_on (result_state (run sample_factory
        [OnChanges (change None (Some (Geo 1))),
         OnChanges (change (Some (Geo 1)) (Some (Geo 2)))] sample_world)) 0) = 2"
proof -
  note sw = sample_world_facts
  have u1: "builds sample_factory (onEachFeature sample_world)
              (OnChanges (change None (Some (Geo 1))))"
    by (simp add: builds_def sample_change_facts sw(5) sample_factory_def)
  have u2: "builds sample_factory (onEachFeature sample_world)
              (OnChanges (change (Some (Geo 1)) (Some (Geo 2))))"
    by (simp add: builds_def sample_change_facts sw(5) sample_factory_def)
  have u: "\<forall>h\<in>set [OnChanges (change None (Some (Geo 1))),
                     OnChanges (change (Some (Geo 1)) (Some (Geo 2)))].
             builds sample_factory (onEachFeature sample_world) h"
    using u1 u2 by simp
  have n: "[OnChanges (change None (Some (Geo 1))),
            OnChanges (change (Some (Geo 1)) (Some (Geo 2)))] \<noteq> []"
    by simp
  have l: "last [OnChanges (change None (Some (Geo 1))),
                 OnChanges (change (Some (Geo 1)) (Some (Geo 2)))]
             = OnChanges (change (Some (Geo 1)) (Some (Geo 2)))"
    by simp
  have g: "groups_on sample_world 0 = []"
    by (simp add: groups_on_def sample_world_logs)
  note th = one_overlay_after_each_refresh [where createGeojson = sample_factory,
    OF sw(1) sw(3) n u]
  have 1: "thrown (run sample_factory
        [OnChanges (change None (Some (Geo 1))),
         OnChanges (change (Some (Geo 1)) (Some (Geo 2)))] sample_world) = None"
    using th [THEN conjunct1] .
  have 2: "one_overlay (result_state (run sample_factory
        [OnChanges (change None (Some (Geo 1))),
         OnChanges (change (Some (Geo 1)) (Some (Geo 2)))] sample_world)) 0"
    using th [THEN conjunct2, THEN conjunct1] .
  have 3: "built_from sample_factory None (OnChanges (change (Some (Geo 1)) (Some (Geo 2))))
        (result_state (run sample_factory
          [OnChanges (change None (Some (Geo 1))),
           OnChanges (change (Some (Geo 1)) (Some (Geo 2)))] sample_world))"
    using th [THEN conjunct2, THEN conjunct2, THEN conjunct1]
    by (simp only: sw(5) l)
  have 4: "length (groups_on (result_state (run sample_factory
        [OnChanges (change None (Some (Geo 1))),
         OnChanges (change (Some (Geo 1)) (Some (Geo 2)))] sample_world)) 0) = 2"
    using th [THEN conjunct2, THEN conjunct2, THEN conjunct2, THEN conjunct2, THEN conjunct1]
    by (simp only: g list.size)
  from sw(1) sw(3) u1 u2 1 2 3 4 show ?thesis by blast
qed

end
